theory Spec2Isabelle
  imports Complex_Main
begin

section \<open>Python strings\<close>

text \<open>
  A Python \<open>str\<close> is a sequence of Unicode code points, so \<open>len\<close> and slicing count
  code points: a string is a list of code points here. \<open>ascii\<close> embeds an ASCII literal.
  \<open>upper\<close> is \<open>str.upper\<close>: it maps each code point by itself, the ASCII letters
  to capitals, and a code point outside ASCII to what the Unicode table of the interpreter
  gives for it (one to three code points); that table is the argument \<open>tab\<close>.
  \<open>lower\<close> changes the ASCII letters and keeps every other code point. The code uses
  \<open>str.lower\<close> only to look for phrases of ASCII letters and spaces. Outside ASCII,
  \<open>str.lower\<close> yields an ASCII letter for two code points only: U+212A gives k, which
  is in none of the phrases, and U+0130 gives i followed by U+0307, which matches no
  phrase, as none ends in i. So these comparisons come out as in Python.
  A finite Python float is modelled by the rational number that is its value.
\<close>

type_synonym pystr = "nat list"

definition ascii :: "string \<Rightarrow> pystr" where
  "ascii cs = map of_char cs"

definition lower_cp :: "nat \<Rightarrow> nat" where
  "lower_cp c = (if 65 \<le> c \<and> c \<le> 90 then c + 32 else c)"

definition upper_cp :: "nat \<Rightarrow> nat" where
  "upper_cp c = (if 97 \<le> c \<and> c \<le> 122 then c - 32 else c)"

definition lower :: "pystr \<Rightarrow> pystr" where
  "lower s = map lower_cp s"

definition upper :: "(nat \<Rightarrow> pystr) \<Rightarrow> pystr \<Rightarrow> pystr" where
  "upper tab s = concat (map (\<lambda>c. if c < 128 then [upper_cp c] else tab c) s)"

text \<open>\<open>starts_with p s\<close> is \<open>s.startswith(p)\<close>; \<open>str_in p s\<close> is Python's \<open>p in s\<close>.\<close>

fun starts_with :: "pystr \<Rightarrow> pystr \<Rightarrow> bool" where
  "starts_with [] s = True"
| "starts_with (p # ps) [] = False"
| "starts_with (p # ps) (c # cs) = (p = c \<and> starts_with ps cs)"

fun str_in :: "pystr \<Rightarrow> pystr \<Rightarrow> bool" where
  "str_in p [] = (p = [])"
| "str_in p (c # cs) = (starts_with p (c # cs) \<or> str_in p cs)"

text \<open>\<open>str_nat n\<close> is \<open>str(n)\<close> for a natural number, \<open>str_int\<close> for an integer.\<close>

fun str_nat :: "nat \<Rightarrow> pystr" where
  "str_nat n = (if n < 10 then [48 + n] else str_nat (n div 10) @ [48 + n mod 10])"

definition str_int :: "int \<Rightarrow> pystr" where
  "str_int i = (if i < 0 then 45 # str_nat (nat (- i)) else str_nat (nat i))"

text \<open>\<open>zfill w s\<close> pads a digit string with zeros on the left to width \<open>w\<close>.\<close>

definition zfill :: "nat \<Rightarrow> pystr \<Rightarrow> pystr" where
  "zfill w s = replicate (w - length s) 48 @ s"

text \<open>The value a digit string denotes, for reading a rendered number back.\<close>

definition digits_val :: "pystr \<Rightarrow> nat" where
  "digits_val s = foldl (\<lambda>a c. 10 * a + (c - 48)) 0 s"

text \<open>
  The exceptions of the model. \<open>KeyError\<close> carries the missing key,
  \<open>UnicodeEncodeError\<close> its message; \<open>OtherError\<close> is any other exception, with its
  message.
\<close>

datatype py_error =
  ZeroDivisionError
  | KeyError pystr
  | TypeError
  | AttributeError
  | JSONDecodeError
  | OverflowError
  | UnicodeEncodeError pystr
  | OtherError pystr

definition bind_err :: "py_error + 'a \<Rightarrow> ('a \<Rightarrow> py_error + 'b) \<Rightarrow> py_error + 'b" where
  "bind_err x f = (case x of Inl e \<Rightarrow> Inl e | Inr a \<Rightarrow> f a)"

text \<open>
  A number as \<open>json.load\<close> gives it: a Python int, or a float, which is finite, an
  infinity, or not a number.
\<close>

datatype number = PyInt int | PyFloat rat | PyInf | PyNegInf | PyNaN

text \<open>\<open>a < t\<close> for a number and an int threshold.\<close>

definition num_lt :: "number \<Rightarrow> int \<Rightarrow> bool" where
  "num_lt a t =
     (case a of
        PyInt i \<Rightarrow> i < t
      | PyFloat q \<Rightarrow> q < of_int t
      | PyInf \<Rightarrow> False
      | PyNegInf \<Rightarrow> True
      | PyNaN \<Rightarrow> False)"

text \<open>
  The conversion of an int to a float: the nearest number with 53 significant bits, ties
  to the even one; an int too large for a float raises.
\<close>

fun bitlen :: "nat \<Rightarrow> nat" where
  "bitlen n = (if n = 0 then 0 else Suc (bitlen (n div 2)))"

definition float_round :: "nat \<Rightarrow> nat" where
  "float_round n =
     (if bitlen n \<le> 53 then n
      else let e = bitlen n - 53; q = n div 2 ^ e; r = n mod 2 ^ e; h = 2 ^ (e - 1)
           in (if r < h then q else if h < r then q + 1
               else if even q then q else q + 1) * 2 ^ e)"

definition float_of_int :: "int \<Rightarrow> py_error + rat" where
  "float_of_int i =
     (let n = float_round (nat \<bar>i\<bar>)
      in if 2 ^ 1024 \<le> n then Inl OverflowError
         else Inr (if i < 0 then - of_nat n else of_nat n))"

section \<open>Preprocessor (preprocessor.py)\<close>

text \<open>
  Format specification \<open>,.0f\<close>: an int is converted to a float first; a finite float
  is rounded to a whole number, ties to the even neighbour, and its digits are grouped in
  threes by commas; an infinity and not-a-number are spelled out.
\<close>

definition round_half_even :: "rat \<Rightarrow> int" where
  "round_half_even x =
     (let f = \<lfloor>x\<rfloor>; d = x - of_int f
      in if d < 1 / 2 then f else if 1 / 2 < d then f + 1
         else if even f then f else f + 1)"

fun group3 :: "nat \<Rightarrow> pystr" where
  "group3 n = (if n < 1000 then str_nat n
               else group3 (n div 1000) @ [44] @ zfill 3 (str_nat (n mod 1000)))"

definition fmt_finite :: "rat \<Rightarrow> pystr" where
  "fmt_finite x =
     (let r = round_half_even x
      in if x < 0 then 45 # group3 (nat (- r)) else group3 (nat r))"

definition fmt_comma_0f :: "number \<Rightarrow> py_error + pystr" where
  "fmt_comma_0f a =
     (case a of
        PyInt i \<Rightarrow> bind_err (float_of_int i) (\<lambda>x. Inr (fmt_finite x))
      | PyFloat x \<Rightarrow> Inr (fmt_finite x)
      | PyInf \<Rightarrow> Inr (ascii ''inf'')
      | PyNegInf \<Rightarrow> Inr (ascii ''-inf'')
      | PyNaN \<Rightarrow> Inr (ascii ''nan''))"

text \<open>The currency mark, as the source file spells it (three code points).\<close>

definition rupee :: pystr where
  "rupee = [226, 8218, 185]"

record thresholds3 =
  t_low :: int
  t_medium :: int
  t_high :: int

definition amount_thresholds :: thresholds3 where
  "amount_thresholds = \<lparr>t_low = 20000, t_medium = 100000, t_high = 500000\<rparr>"

definition categorize_amount :: "number \<Rightarrow> py_error + pystr" where
  "categorize_amount amount =
     (if num_lt amount (t_low amount_thresholds) then
        Inr (ascii ''Low amount (below '' @ rupee @ ascii ''20,000)'')
      else if num_lt amount (t_medium amount_thresholds) then
        Inr (ascii ''Medium amount ('' @ rupee @ ascii ''20,000 - '' @ rupee
               @ ascii ''1,00,000)'')
      else if num_lt amount (t_high amount_thresholds) then
        Inr (ascii ''High amount ('' @ rupee @ ascii ''1,00,000 - '' @ rupee
               @ ascii ''5,00,000)'')
      else
        bind_err (fmt_comma_0f amount) (\<lambda>shown.
          Inr (ascii ''Very high amount (above '' @ rupee @ ascii ''5,00,000 - specifically ''
                 @ rupee @ shown @ ascii '')'')))"

record thresholds4 =
  t1 :: int
  t2 :: int
  t3 :: int
  t4 :: int

definition overdue_thresholds :: thresholds4 where
  "overdue_thresholds = \<lparr>t1 = 15, t2 = 45, t3 = 90, t4 = 180\<rparr>"

definition attempts_thresholds :: thresholds4 where
  "attempts_thresholds = \<lparr>t1 = 0, t2 = 2, t3 = 5, t4 = 10\<rparr>"

definition categorize_overdue :: "int \<Rightarrow> pystr" where
  "categorize_overdue days =
     (if days \<le> t1 overdue_thresholds then
        ascii ''Recently overdue ('' @ str_int days @ ascii '' days - within grace period)''
      else if days \<le> t2 overdue_thresholds then
        ascii ''Moderately overdue ('' @ str_int days @ ascii '' days - needs attention)''
      else if days \<le> t3 overdue_thresholds then
        ascii ''Long overdue ('' @ str_int days @ ascii '' days - serious concern)''
      else
        ascii ''Critically overdue ('' @ str_int days
          @ ascii '' days - immediate action required)'')"

definition categorize_attempts :: "int \<Rightarrow> pystr" where
  "categorize_attempts attempts =
     (if attempts = t1 attempts_thresholds then
        ascii ''No recovery attempts made yet''
      else if attempts \<le> t2 attempts_thresholds then
        ascii ''Few recovery attempts ('' @ str_int attempts @ ascii '' attempts)''
      else if attempts \<le> t3 attempts_thresholds then
        ascii ''Multiple failed recovery attempts ('' @ str_int attempts @ ascii '' attempts)''
      else
        ascii ''Exhaustive recovery attempts failed ('' @ str_int attempts
          @ ascii '' attempts - customer unresponsive)'')"

definition categorize_customer_type :: "pystr \<Rightarrow> pystr" where
  "categorize_customer_type customer_type =
     (if lower customer_type = ascii ''business'' then
        ascii ''Business customer (higher stakes, formal recovery process needed)''
      else
        ascii ''Individual customer (personal approach may work)'')"

definition loan_contexts :: "(pystr \<times> pystr) list" where
  "loan_contexts =
     [(ascii ''Credit Card'', ascii ''Credit card debt (unsecured, typically smaller amounts)''),
      (ascii ''Personal Loan'', ascii ''Personal loan (unsecured, medium priority)''),
      (ascii ''Home Loan'', ascii ''Home loan (secured by property, high recovery priority)''),
      (ascii ''Vehicle Loan'', ascii ''Vehicle loan (secured by vehicle, can be repossessed)''),
      (ascii ''Business Loan'',
         ascii ''Business loan (complex recovery, may involve legal action)'')]"

definition categorize_loan_type :: "pystr \<Rightarrow> pystr" where
  "categorize_loan_type loan_type =
     (case map_of loan_contexts loan_type of
        Some d \<Rightarrow> d
      | None \<Rightarrow> loan_type @ ascii '' (standard recovery process)'')"

text \<open>
  A case record of the case source: the keys the core reads, each absent (\<open>None\<close>) or
  present with a value of the type the case source declares, and whether the record has
  any other key.
\<close>

record case_rec =
  case_id :: "pystr option"
  customer_name :: "pystr option"
  amount :: "number option"
  days_overdue :: "int option"
  past_attempts :: "int option"
  customer_type :: "pystr option"
  loan_type :: "pystr option"
  other_keys :: bool

record preprocessed =
  ctx_case_id :: "pystr option"
  ctx_customer_name :: "pystr option"
  raw_amount :: "number option"
  raw_days_overdue :: "int option"
  raw_past_attempts :: "int option"
  amount_context :: pystr
  overdue_context :: pystr
  attempts_context :: pystr
  customer_context :: pystr
  loan_context :: pystr

text \<open>\<open>get_or d v\<close> is \<open>dict.get(key, d)\<close> on the looked-up field \<open>v\<close>.\<close>

definition get_or :: "'a \<Rightarrow> 'a option \<Rightarrow> 'a" where
  "get_or d v = (case v of None \<Rightarrow> d | Some x \<Rightarrow> x)"

text \<open>The guard \<open>if not case\<close>: no case, or a case without any key.\<close>

definition falsy_case :: "case_rec option \<Rightarrow> bool" where
  "falsy_case c =
     (case c of None \<Rightarrow> True
      | Some r \<Rightarrow> case_id r = None \<and> customer_name r = None \<and> amount r = None \<and>
          days_overdue r = None \<and> past_attempts r = None \<and> customer_type r = None \<and>
          loan_type r = None \<and> \<not> other_keys r)"

definition preprocess :: "case_rec option \<Rightarrow> py_error + preprocessed option" where
  "preprocess c =
     (if falsy_case c then Inr None
      else case c of None \<Rightarrow> Inr None
      | Some r \<Rightarrow>
         bind_err (categorize_amount (get_or (PyInt 0) (amount r))) (\<lambda>amount_text. Inr (Some
           \<lparr>ctx_case_id = case_id r,
            ctx_customer_name = customer_name r,
            raw_amount = amount r,
            raw_days_overdue = days_overdue r,
            raw_past_attempts = past_attempts r,
            amount_context = amount_text,
            overdue_context = categorize_overdue (get_or 0 (days_overdue r)),
            attempts_context = categorize_attempts (get_or 0 (past_attempts r)),
            customer_context =
              categorize_customer_type (get_or (ascii ''Individual'') (customer_type r)),
            loan_context = categorize_loan_type (get_or (ascii ''Unknown'') (loan_type r))\<rparr>)))"

text \<open>An optional string inside an f-string: \<open>None\<close> is rendered as the word None.\<close>

definition fmt_opt :: "pystr option \<Rightarrow> pystr" where
  "fmt_opt v = (case v of None \<Rightarrow> ascii ''None'' | Some s \<Rightarrow> s)"

definition nl :: pystr where
  "nl = [10]"

definition rule_line :: pystr where
  "rule_line = ascii ''==================================''"

definition generate_prompt_context :: "preprocessed option \<Rightarrow> pystr" where
  "generate_prompt_context preprocessed_case =
     (case preprocessed_case of
        None \<Rightarrow> []
      | Some p \<Rightarrow>
          nl @ ascii ''CASE DETAILS FOR RISK ASSESSMENT:'' @ nl
          @ rule_line @ nl
          @ ascii ''Case ID: '' @ fmt_opt (ctx_case_id p) @ nl
          @ ascii ''Customer: '' @ fmt_opt (ctx_customer_name p) @ nl
          @ nl
          @ ascii ''FINANCIAL CONTEXT:'' @ nl
          @ ascii ''- Amount: '' @ amount_context p @ nl
          @ ascii ''- Loan Type: '' @ loan_context p @ nl
          @ nl
          @ ascii ''OVERDUE STATUS:'' @ nl
          @ ascii ''- Duration: '' @ overdue_context p @ nl
          @ nl
          @ ascii ''RECOVERY HISTORY:'' @ nl
          @ ascii ''- Past Attempts: '' @ attempts_context p @ nl
          @ nl
          @ ascii ''CUSTOMER PROFILE:'' @ nl
          @ ascii ''- Type: '' @ customer_context p @ nl
          @ rule_line @ nl)"

section \<open>Classification results and the rule-based classifier (gemini_client.py)\<close>

text \<open>
  Values of Python as far as JSON produces them; a dictionary is a map from keys to
  values. A classification result is such a value.
\<close>

datatype json =
  JNull
  | JBool bool
  | JInt int
  | JFloat rat
  | JStr pystr
  | JArr "json list"
  | JObj "pystr \<Rightarrow> json option"

text \<open>A dictionary display \<open>{k1: v1, ...}\<close>; a later entry for the same key wins.\<close>

definition dict_of :: "(pystr \<times> json) list \<Rightarrow> json" where
  "dict_of kvs = JObj (map_of (rev kvs))"

text \<open>\<open>field r k\<close> reads key \<open>k\<close> of a result, \<open>None\<close> where \<open>r\<close> has no such key.\<close>

definition field :: "json \<Rightarrow> string \<Rightarrow> json option" where
  "field r k = (case r of JObj m \<Rightarrow> m (ascii k) | _ \<Rightarrow> None)"


definition high_risk_indicators :: "pystr list" where
  "high_risk_indicators =
     [ascii ''critically overdue'',
      ascii ''exhaustive recovery attempts'',
      ascii ''very high amount'',
      ascii ''immediate action required'']"

definition low_risk_indicators :: "pystr list" where
  "low_risk_indicators =
     [ascii ''recently overdue'',
      ascii ''no recovery attempts'',
      ascii ''low amount'',
      ascii ''within grace period'']"

text \<open>\<open>sum(1 for ind in indicators if ind in context_lower)\<close>\<close>

definition score :: "pystr list \<Rightarrow> pystr \<Rightarrow> nat" where
  "score indicators context_lower =
     sum_list (map (\<lambda>ind. 1) (filter (\<lambda>ind. str_in ind context_lower) indicators))"

definition demo_classify_risk :: "pystr \<Rightarrow> json" where
  "demo_classify_risk case_context =
     (let context_lower = lower case_context;
          high_score = score high_risk_indicators context_lower;
          low_score = score low_risk_indicators context_lower
      in if high_score \<ge> 2 then
           dict_of
            [(ascii ''risk_level'', JStr (ascii ''HIGH'')),
             (ascii ''confidence'', JFloat (85 / 100)),
             (ascii ''recovery_probability'', JStr (ascii ''LOW'')),
             (ascii ''recovery_percentage'', JInt 30),
             (ascii ''reason'', JStr (ascii
               ''Case shows multiple high-risk indicators including long overdue duration and multiple failed recovery attempts.'')),
             (ascii ''recommended_action'', JStr (ascii
               ''Escalate to legal team for formal notice. Consider asset recovery if secured loan.''))]
         else if low_score \<ge> 2 then
           dict_of
            [(ascii ''risk_level'', JStr (ascii ''LOW'')),
             (ascii ''confidence'', JFloat (90 / 100)),
             (ascii ''recovery_probability'', JStr (ascii ''VERY HIGH'')),
             (ascii ''recovery_percentage'', JInt 85),
             (ascii ''reason'', JStr (ascii
               ''Case is recently overdue with low amount. Customer likely to pay with gentle reminder.'')),
             (ascii ''recommended_action'', JStr (ascii
               ''Send automated payment reminder. Schedule follow-up call in 3 days.''))]
         else
           dict_of
            [(ascii ''risk_level'', JStr (ascii ''MEDIUM'')),
             (ascii ''confidence'', JFloat (75 / 100)),
             (ascii ''recovery_probability'', JStr (ascii ''MODERATE'')),
             (ascii ''recovery_percentage'', JInt 55),
             (ascii ''reason'', JStr (ascii
               ''Case shows mixed indicators. Moderate attention required with proactive follow-up.'')),
             (ascii ''recommended_action'', JStr (ascii
               ''Assign to recovery agent for personal follow-up. Offer payment plan options.''))])"

section \<open>Decision ledger (result_storage.py)\<close>

text \<open>
  The ledger is the list \<open>self.results\<close>. \<open>store_decision\<close> is the call as far as
  the list goes; the write of the list to its file, which may raise, is taken up in the
  pipeline section. The time of a call is an argument, \<open>now\<close>, the text
  \<open>datetime.now().isoformat()\<close> gives.
\<close>

record input_data =
  in_amount :: "number option"
  in_days_overdue :: "int option"
  in_past_attempts :: "int option"
  in_customer_type :: "pystr option"
  in_loan_type :: "pystr option"

record ai_decision =
  ai_risk_level :: "json option"
  ai_confidence :: "json option"
  ai_reason :: "json option"
  ai_recommended_action :: "json option"

record decision_record =
  decision_id :: pystr
  dr_case_id :: pystr
  dr_customer_name :: pystr
  timestamp :: pystr
  dr_input_data :: input_data
  dr_ai_decision :: "ai_decision option"
  status :: pystr

type_synonym ledger = "decision_record list"

text \<open>\<open>f"DEC{n:05d}"\<close>\<close>

definition dec_id :: "nat \<Rightarrow> pystr" where
  "dec_id n = ascii ''DEC'' @ zfill 5 (str_nat n)"

definition store_decision ::
  "ledger \<Rightarrow> pystr \<Rightarrow> pystr \<Rightarrow> pystr \<Rightarrow> case_rec \<Rightarrow> (pystr \<Rightarrow> json option)
     \<Rightarrow> decision_record \<times> ledger" where
  "store_decision results now cid cname raw_case_data classification_result =
     (let decision_record =
        \<lparr>decision_id = dec_id (length results + 1),
         dr_case_id = cid,
         dr_customer_name = cname,
         timestamp = now,
         dr_input_data =
           \<lparr>in_amount = amount raw_case_data,
            in_days_overdue = days_overdue raw_case_data,
            in_past_attempts = past_attempts raw_case_data,
            in_customer_type = customer_type raw_case_data,
            in_loan_type = loan_type raw_case_data\<rparr>,
         dr_ai_decision = Some
           \<lparr>ai_risk_level = classification_result (ascii ''risk_level''),
            ai_confidence = classification_result (ascii ''confidence''),
            ai_reason = classification_result (ascii ''reason''),
            ai_recommended_action = classification_result (ascii ''recommended_action'')\<rparr>,
         status = ascii ''pending_review''\<rparr>
      in (decision_record, results @ [decision_record]))"

definition get_all_decisions :: "ledger \<Rightarrow> decision_record list" where
  "get_all_decisions results = results"

definition get_decision_by_case :: "ledger \<Rightarrow> pystr \<Rightarrow> decision_record list" where
  "get_decision_by_case results cid = filter (\<lambda>d. dr_case_id d = cid) results"

definition get_latest_decision :: "ledger \<Rightarrow> pystr \<Rightarrow> decision_record option" where
  "get_latest_decision results cid =
     (let case_decisions = get_decision_by_case results cid
      in if case_decisions \<noteq> [] then Some (last case_decisions) else None)"

text \<open>\<open>d.get("ai_decision", {}).get("risk_level")\<close>\<close>

definition risk_level_of :: "decision_record \<Rightarrow> json option" where
  "risk_level_of d = (case dr_ai_decision d of None \<Rightarrow> None | Some a \<Rightarrow> ai_risk_level a)"

definition get_decisions_by_risk :: "ledger \<Rightarrow> pystr \<Rightarrow> decision_record list" where
  "get_decisions_by_risk results risk_level =
     filter (\<lambda>d. risk_level_of d = Some (JStr risk_level)) results"

text \<open>
  \<open>round(k / total * 100, 1)\<close>: the division raises on a zero divisor; the result is
  rounded to one decimal, ties to even. The quotient is taken exactly here; Python takes
  it in floating point, which can move a quotient that lies exactly between two numbers
  of one decimal to the other neighbour.
\<close>

definition py_truediv :: "nat \<Rightarrow> nat \<Rightarrow> py_error + rat" where
  "py_truediv a b = (if b = 0 then Inl ZeroDivisionError else Inr (of_nat a / of_nat b))"

definition round1 :: "rat \<Rightarrow> rat" where
  "round1 x = of_int (round_half_even (x * 10)) / 10"


definition percentage :: "nat \<Rightarrow> nat \<Rightarrow> py_error + rat" where
  "percentage k total_n =
     (case py_truediv k total_n of Inl e \<Rightarrow> Inl e | Inr q \<Rightarrow> Inr (round1 (q * 100)))"

definition get_statistics :: "ledger \<Rightarrow> py_error + json" where
  "get_statistics results =
     (let total_n = length results
      in if total_n = 0 then
           Inr (dict_of [(ascii ''total'', JInt 0), (ascii ''high'', JInt 0),
                         (ascii ''medium'', JInt 0), (ascii ''low'', JInt 0)])
         else
           let high = length (get_decisions_by_risk results (ascii ''HIGH''));
               medium = length (get_decisions_by_risk results (ascii ''MEDIUM''));
               low = length (get_decisions_by_risk results (ascii ''LOW''))
           in case percentage high total_n of Inl e \<Rightarrow> Inl e | Inr hp \<Rightarrow>
              (case percentage medium total_n of Inl e \<Rightarrow> Inl e | Inr mp \<Rightarrow>
              (case percentage low total_n of Inl e \<Rightarrow> Inl e | Inr lp \<Rightarrow>
                 Inr (dict_of
                   [(ascii ''total'', JInt (int total_n)),
                    (ascii ''high'', JInt (int high)),
                    (ascii ''medium'', JInt (int medium)),
                    (ascii ''low'', JInt (int low)),
                    (ascii ''high_percentage'', JFloat hp),
                    (ascii ''medium_percentage'', JFloat mp),
                    (ascii ''low_percentage'', JFloat lp)]))))"

definition clear_all :: "ledger \<Rightarrow> ledger" where
  "clear_all results = []"

text \<open>
  A history of the ledger: the calls made on it, in order. \<open>history ops results\<close> runs
  them from the ledger \<open>results\<close> and gives the decision identifiers the calls of
  \<open>store_decision\<close> returned, with the ledger at the end.
\<close>

datatype ledger_op =
  Store pystr pystr pystr case_rec "pystr \<Rightarrow> json option"
  | Clear

fun history :: "ledger_op list \<Rightarrow> ledger \<Rightarrow> pystr list \<times> ledger" where
  "history [] results = ([], results)"
| "history (Store now cid cname raw cls # ops) results =
     (let (d, results') = store_decision results now cid cname raw cls;
          (ids, final) = history ops results'
      in (decision_id d # ids, final))"
| "history (Clear # ops) results = history ops (clear_all results)"

text \<open>The case and the classification of the module's own quick test.\<close>

definition test_case :: case_rec where
  "test_case =
     \<lparr>case_id = Some (ascii ''CASE003''), customer_name = Some (ascii ''ABC Enterprises''),
      amount = Some (PyInt 500000), days_overdue = Some 120, past_attempts = Some 8,
      customer_type = Some (ascii ''Business''), loan_type = Some (ascii ''Business Loan''),
      other_keys = True\<rparr>"

definition test_result :: "pystr \<Rightarrow> json option" where
  "test_result =
     map_of
      [(ascii ''risk_level'', JStr (ascii ''HIGH'')),
       (ascii ''confidence'', JFloat (92 / 100)),
       (ascii ''reason'', JStr (ascii
         ''High amount with extended overdue period and multiple failed attempts.'')),
       (ascii ''recommended_action'', JStr (ascii ''Escalate to legal team.''))]"

definition test_store :: ledger_op where
  "test_store =
     Store (ascii ''2024-01-01T00:00:00'') (ascii ''CASE003'') (ascii ''ABC Enterprises'')
       test_case test_result"

section \<open>LLM-backed classifier (gemini_client.py)\<close>

text \<open>
  What the classifier uses from outside the repository: the call of the service, which
  returns the response text or raises; \<open>json.loads\<close>, which returns the decoded value
  or raises; \<open>str(e)\<close>, the message of an exception; the standard output, on which
  \<open>print\<close> writes a line or raises; and the upper-case table of the interpreter for
  the code points outside ASCII.
\<close>

record gemini =
  system_prompt :: pystr
  generate_content :: "pystr \<Rightarrow> py_error + pystr"
  json_loads :: "pystr \<Rightarrow> py_error + json"
  exc_str :: "py_error \<Rightarrow> pystr"
  stdout :: "pystr \<Rightarrow> py_error option"
  upper_table :: "nat \<Rightarrow> pystr"

text \<open>White space as \<open>str.strip\<close> and the pattern \<open>\s\<close> see it.\<close>

definition is_space :: "nat \<Rightarrow> bool" where
  "is_space c =
     ((9 \<le> c \<and> c \<le> 13) \<or> (28 \<le> c \<and> c \<le> 32) \<or> c = 133 \<or> c = 160 \<or> c = 5760
      \<or> (8192 \<le> c \<and> c \<le> 8202) \<or> c = 8232 \<or> c = 8233 \<or> c = 8239 \<or> c = 8287
      \<or> c = 12288)"

definition lstrip :: "pystr \<Rightarrow> pystr" where
  "lstrip s = dropWhile is_space s"

definition rstrip :: "pystr \<Rightarrow> pystr" where
  "rstrip s = rev (dropWhile is_space (rev s))"

definition strip :: "pystr \<Rightarrow> pystr" where
  "strip s = rstrip (lstrip s)"

definition ends_with :: "pystr \<Rightarrow> pystr \<Rightarrow> bool" where
  "ends_with p s = starts_with (rev p) (rev s)"

definition fence :: pystr where
  "fence = ascii ''```''"

text \<open>\<open>re.sub(r'^```json\s*', '', s)\<close> and \<open>re.sub(r'^```\s*', '', s)\<close>\<close>

definition sub_prefix :: "pystr \<Rightarrow> pystr \<Rightarrow> pystr" where
  "sub_prefix p s = (if starts_with p s then lstrip (drop (length p) s) else s)"

text \<open>
  \<open>re.sub(r'\s*```$', '', s)\<close>: the end of the pattern is the end of the string, or
  the place before a newline that ends the string.
\<close>

definition sub_fence_end :: "pystr \<Rightarrow> pystr" where
  "sub_fence_end s =
     (if ends_with fence s then rstrip (take (length s - 3) s)
      else if ends_with (fence @ [10]) s then rstrip (take (length s - 4) s) @ [10]
      else s)"

definition clean :: "pystr \<Rightarrow> pystr" where
  "clean response_text =
     strip (sub_fence_end (sub_prefix fence (sub_prefix (fence @ ascii ''json'')
       (strip response_text))))"

definition extract_risk_level :: "(nat \<Rightarrow> pystr) \<Rightarrow> pystr \<Rightarrow> pystr" where
  "extract_risk_level tab text =
     (let text_upper = upper tab text
      in if str_in (ascii ''HIGH RISK'') text_upper \<or> str_in (ascii ''HIGH'') text_upper then
           ascii ''HIGH''
         else if str_in (ascii ''MEDIUM RISK'') text_upper \<or> str_in (ascii ''MEDIUM'') text_upper
         then ascii ''MEDIUM''
         else if str_in (ascii ''LOW RISK'') text_upper \<or> str_in (ascii ''LOW'') text_upper then
           ascii ''LOW''
         else ascii ''UNKNOWN'')"

text \<open>
  The operations of Python on a decoded value: \<open>k in r\<close>, \<open>r[k] = v\<close> and
  \<open>r.get(k, d)\<close>. Each raises on a value that does not support it.
\<close>

definition contains :: "json \<Rightarrow> pystr \<Rightarrow> py_error + bool" where
  "contains r k =
     (case r of
        JObj m \<Rightarrow> Inr (m k \<noteq> None)
      | JArr xs \<Rightarrow> Inr (JStr k \<in> set xs)
      | JStr s \<Rightarrow> Inr (str_in k s)
      | _ \<Rightarrow> Inl TypeError)"

definition setitem :: "json \<Rightarrow> pystr \<Rightarrow> json \<Rightarrow> py_error + json" where
  "setitem r k v = (case r of JObj m \<Rightarrow> Inr (JObj (m(k \<mapsto> v))) | _ \<Rightarrow> Inl TypeError)"

definition get_default :: "json \<Rightarrow> pystr \<Rightarrow> json \<Rightarrow> py_error + json" where
  "get_default r k d =
     (case r of
        JObj m \<Rightarrow> Inr (case m k of None \<Rightarrow> d | Some v \<Rightarrow> v)
      | _ \<Rightarrow> Inl AttributeError)"

text \<open>\<open>if k not in result: result[k] = v\<close>\<close>

definition ensure :: "json \<Rightarrow> pystr \<Rightarrow> json \<Rightarrow> py_error + json" where
  "ensure r k v = bind_err (contains r k) (\<lambda>present. if present then Inr r else setitem r k v)"

text \<open>What \<open>ensure\<close> does to a dictionary (Python's \<open>setdefault\<close>).\<close>

definition setdefault :: "(pystr \<Rightarrow> json option) \<Rightarrow> pystr \<Rightarrow> json \<Rightarrow> (pystr \<Rightarrow> json option)" where
  "setdefault m k v = (if m k = None then m(k \<mapsto> v) else m)"

text \<open>The dictionary after the four fields of the first steps are filled in.\<close>

definition with_defaults :: "(pystr \<Rightarrow> json option) \<Rightarrow> (pystr \<Rightarrow> json option)" where
  "with_defaults m =
     setdefault (setdefault (setdefault (setdefault m
       (ascii ''risk_level'') (JStr (ascii ''Unknown'')))
       (ascii ''reason'') (JStr (ascii ''No explanation provided'')))
       (ascii ''confidence'') (JFloat (8 / 10)))
       (ascii ''recommended_action'') (JStr (ascii ''Follow standard recovery procedure''))"

text \<open>\<open>.upper()\<close> of a value: only a string has it.\<close>

definition upper_of :: "(nat \<Rightarrow> pystr) \<Rightarrow> json \<Rightarrow> py_error + pystr" where
  "upper_of tab v = (case v of JStr s \<Rightarrow> Inr (upper tab s) | _ \<Rightarrow> Inl AttributeError)"

definition prob_map :: "(pystr \<times> int) list" where
  "prob_map =
     [(ascii ''VERY HIGH'', 85), (ascii ''HIGH'', 70), (ascii ''MODERATE'', 50),
      (ascii ''LOW'', 30), (ascii ''VERY LOW'', 15)]"

text \<open>\<open>prob_map.get(v, 50)\<close>: a list or a dictionary cannot be hashed.\<close>

definition prob_map_get :: "json \<Rightarrow> py_error + int" where
  "prob_map_get v =
     (case v of
        JStr s \<Rightarrow> Inr (case map_of prob_map s of None \<Rightarrow> 50 | Some p \<Rightarrow> p)
      | JArr xs \<Rightarrow> Inl TypeError
      | JObj m \<Rightarrow> Inl TypeError
      | _ \<Rightarrow> Inr 50)"

definition infer_probability :: "pystr \<Rightarrow> pystr" where
  "infer_probability risk =
     (if risk = ascii ''LOW'' then ascii ''HIGH''
      else if risk = ascii ''MEDIUM'' then ascii ''MODERATE''
      else ascii ''LOW'')"

text \<open>The two steps that fill in the recovery prediction.\<close>

definition ensure_probability :: "(nat \<Rightarrow> pystr) \<Rightarrow> json \<Rightarrow> py_error + json" where
  "ensure_probability tab r =
     bind_err (contains r (ascii ''recovery_probability'')) (\<lambda>present.
       if present then Inr r
       else bind_err (get_default r (ascii ''risk_level'') (JStr (ascii ''MEDIUM''))) (\<lambda>v.
            bind_err (upper_of tab v) (\<lambda>risk.
            setitem r (ascii ''recovery_probability'') (JStr (infer_probability risk)))))"

definition ensure_percentage :: "json \<Rightarrow> py_error + json" where
  "ensure_percentage r =
     bind_err (contains r (ascii ''recovery_percentage'')) (\<lambda>present.
       if present then Inr r
       else bind_err (get_default r (ascii ''recovery_probability'') (JStr (ascii ''MODERATE'')))
              (\<lambda>v.
            bind_err (prob_map_get v) (\<lambda>p.
            setitem r (ascii ''recovery_percentage'') (JInt p))))"

definition complete_fields :: "(nat \<Rightarrow> pystr) \<Rightarrow> json \<Rightarrow> py_error + json" where
  "complete_fields tab result =
     bind_err (ensure result (ascii ''risk_level'') (JStr (ascii ''Unknown''))) (\<lambda>r1.
     bind_err (ensure r1 (ascii ''reason'') (JStr (ascii ''No explanation provided''))) (\<lambda>r2.
     bind_err (ensure r2 (ascii ''confidence'') (JFloat (8 / 10))) (\<lambda>r3.
     bind_err (ensure r3 (ascii ''recommended_action'')
        (JStr (ascii ''Follow standard recovery procedure''))) (\<lambda>r4.
     bind_err (ensure_probability tab r4) ensure_percentage))))"

definition parse_response :: "gemini \<Rightarrow> pystr \<Rightarrow> py_error + json" where
  "parse_response g response_text =
     (case json_loads g (clean response_text) of
        Inl JSONDecodeError \<Rightarrow>
          Inr (dict_of
            [(ascii ''risk_level'', JStr (extract_risk_level (upper_table g) response_text)),
             (ascii ''confidence'', JFloat (7 / 10)),
             (ascii ''reason'', JStr (if length response_text > 200 then take 200 response_text
                                      else response_text)),
             (ascii ''recommended_action'', JStr (ascii ''Manual review recommended''))])
      | Inl e \<Rightarrow> Inl e
      | Inr result \<Rightarrow>
          (case complete_fields (upper_table g) result of
             Inl JSONDecodeError \<Rightarrow>
               Inr (dict_of
                 [(ascii ''risk_level'', JStr (extract_risk_level (upper_table g) response_text)),
                  (ascii ''confidence'', JFloat (7 / 10)),
                  (ascii ''reason'', JStr (if length response_text > 200
                                           then take 200 response_text else response_text)),
                  (ascii ''recommended_action'', JStr (ascii ''Manual review recommended''))])
           | Inl e \<Rightarrow> Inl e
           | Inr r \<Rightarrow> Inr r))"

definition full_prompt :: "gemini \<Rightarrow> pystr \<Rightarrow> pystr" where
  "full_prompt g case_context =
     nl @ system_prompt g @ nl @ nl @ case_context @ nl @ nl
     @ ascii ''Analyze this case and provide risk classification in JSON format.'' @ nl"

definition api_error :: "gemini \<Rightarrow> py_error \<Rightarrow> json" where
  "api_error g e =
     dict_of
      [(ascii ''risk_level'', JStr (ascii ''ERROR'')),
       (ascii ''confidence'', JFloat 0),
       (ascii ''reason'', JStr (ascii ''API Error: '' @ exc_str g e)),
       (ascii ''recommended_action'', JStr (ascii ''Manual review required''))]"

text \<open>The line the handler prints, and the handler: it prints, then returns the sentinel.\<close>

definition error_line :: "gemini \<Rightarrow> py_error \<Rightarrow> pystr" where
  "error_line g e = [226, 338] @ ascii '' Gemini API Error: '' @ exc_str g e"

definition handle_error :: "gemini \<Rightarrow> py_error \<Rightarrow> py_error + json" where
  "handle_error g e =
     (case stdout g (error_line g e) of
        Some raised \<Rightarrow> Inl raised
      | None \<Rightarrow> Inr (api_error g e))"

definition classify_risk :: "gemini \<Rightarrow> pystr \<Rightarrow> py_error + json" where
  "classify_risk g case_context =
     (case generate_content g (full_prompt g case_context) of
        Inl e \<Rightarrow> handle_error g e
      | Inr response_text \<Rightarrow>
          (case parse_response g response_text of
             Inl e \<Rightarrow> handle_error g e
           | Inr result \<Rightarrow> Inr result))"

text \<open>
  Sample responses of the service, and \<open>json.loads\<close> on them: a JSON object wrapped in
  a code fence, a JSON object whose risk level is a number, a JSON array of the six field
  names, a JSON number, and prose, which does not decode.
\<close>

definition six_keys :: "pystr list" where
  "six_keys =
     [ascii ''risk_level'', ascii ''reason'', ascii ''confidence'', ascii ''recommended_action'',
      ascii ''recovery_probability'', ascii ''recovery_percentage'']"

definition json_text :: pystr where
  "json_text = ascii ''{'' @ [34] @ ascii ''recovery_probability'' @ [34] @ ascii '': ''
     @ [34] @ ascii ''HIGH'' @ [34] @ ascii ''}''"

definition fenced_text :: pystr where
  "fenced_text = fence @ ascii ''json'' @ nl @ json_text @ nl @ fence"

definition prose_text :: pystr where
  "prose_text = ascii ''The case looks HIGH risk overall.''"

definition bad_text :: pystr where
  "bad_text = ascii ''{'' @ [34] @ ascii ''risk_level'' @ [34] @ ascii '': 3}''"

definition array_text :: pystr where
  "array_text =
     ascii ''['' @ [34] @ ascii ''risk_level'' @ [34] @ ascii '', '' @ [34] @ ascii ''reason'' @ [34]
     @ ascii '', '' @ [34] @ ascii ''confidence'' @ [34]
     @ ascii '', '' @ [34] @ ascii ''recommended_action'' @ [34]
     @ ascii '', '' @ [34] @ ascii ''recovery_probability'' @ [34]
     @ ascii '', '' @ [34] @ ascii ''recovery_percentage'' @ [34] @ ascii '']''"

definition number_text :: pystr where
  "number_text = ascii ''3''"

text \<open>Prose with a dotless i (U+0131), which upper-cases to the letter I.\<close>

definition dotless_text :: pystr where
  "dotless_text = [104, 305, 103, 104]"

definition sample_loads :: "pystr \<Rightarrow> py_error + json" where
  "sample_loads s =
     (if s = json_text then
        Inr (JObj (map_of [(ascii ''recovery_probability'', JStr (ascii ''HIGH''))]))
      else if s = bad_text then
        Inr (JObj (map_of [(ascii ''risk_level'', JInt 3)]))
      else if s = array_text then Inr (JArr (map JStr six_keys))
      else if s = number_text then Inr (JInt 3)
      else Inl JSONDecodeError)"

text \<open>
  \<open>str(e)\<close> on sample exceptions: the message an exception carries, the key of a
  \<open>KeyError\<close> in quotes, and no message for the others.
\<close>

definition sample_exc_str :: "py_error \<Rightarrow> pystr" where
  "sample_exc_str e =
     (case e of
        OtherError m \<Rightarrow> m
      | UnicodeEncodeError m \<Rightarrow> m
      | KeyError k \<Rightarrow> [39] @ k @ [39]
      | _ \<Rightarrow> [])"

text \<open>
  Two standard outputs (the messages shortened): one encoding in UTF-8, which refuses a
  lone surrogate, and one encoding in ASCII, as a stream with the encoding \<open>ascii\<close>
  assigned to \<open>sys.stdout\<close> is, which refuses every code point from 128 on.
\<close>

definition utf8_stdout :: "pystr \<Rightarrow> py_error option" where
  "utf8_stdout line =
     (if list_ex (\<lambda>c. 55296 \<le> c \<and> c \<le> 57343) line
      then Some (UnicodeEncodeError (ascii ''utf-8 codec: surrogates not allowed''))
      else None)"

definition ascii_stdout :: "pystr \<Rightarrow> py_error option" where
  "ascii_stdout line =
     (if list_ex (\<lambda>c. 128 \<le> c) line
      then Some (UnicodeEncodeError (ascii ''ascii codec: ordinal not in range(128)''))
      else None)"

text \<open>Two entries of the upper-case table: dotless i and long s; the rest left alone.\<close>

definition sample_upper_table :: "nat \<Rightarrow> pystr" where
  "sample_upper_table c = (if c = 305 then [73] else if c = 383 then [83] else [c])"

definition sample_gemini :: "(pystr \<Rightarrow> py_error option) \<Rightarrow> (py_error + pystr) \<Rightarrow> gemini" where
  "sample_gemini out response =
     \<lparr>system_prompt = ascii ''You are an AI Risk Assessment Agent for a debt collection enterprise.'',
      generate_content = (\<lambda>prompt. response),
      json_loads = sample_loads,
      exc_str = sample_exc_str,
      stdout = out,
      upper_table = sample_upper_table\<rparr>"

text \<open>
  When the completion of a decoded object runs through: the risk level is upper-cased
  only if \<open>recovery_probability\<close> is missing, and must then be a string; the
  probability is looked up only if \<open>recovery_percentage\<close> is missing, and must then
  not be a list or a dictionary.
\<close>

definition is_str :: "json \<Rightarrow> bool" where
  "is_str v = (case v of JStr s \<Rightarrow> True | _ \<Rightarrow> False)"

definition hashable :: "json \<Rightarrow> bool" where
  "hashable v = (case v of JArr xs \<Rightarrow> False | JObj m \<Rightarrow> False | _ \<Rightarrow> True)"

definition completes :: "(pystr \<Rightarrow> json option) \<Rightarrow> bool" where
  "completes m =
     ((m (ascii ''recovery_probability'') \<noteq> None \<or>
       (case m (ascii ''risk_level'') of None \<Rightarrow> True | Some v \<Rightarrow> is_str v)) \<and>
      (m (ascii ''recovery_percentage'') \<noteq> None \<or>
       (case m (ascii ''recovery_probability'') of None \<Rightarrow> True | Some v \<Rightarrow> hashable v)))"

text \<open>
  A decoded value that is a dictionary, and a decoded list or string that names all six
  keys: the completion leaves such a list or string as it is.
\<close>

definition is_obj :: "json \<Rightarrow> bool" where
  "is_obj v = (case v of JObj m \<Rightarrow> True | _ \<Rightarrow> False)"

definition names_all :: "json \<Rightarrow> bool" where
  "names_all v =
     (case v of
        JArr xs \<Rightarrow> list_all (\<lambda>k. JStr k \<in> set xs) six_keys
      | JStr s \<Rightarrow> list_all (\<lambda>k. str_in k s) six_keys
      | _ \<Rightarrow> False)"

definition error_store :: ledger_op where
  "error_store =
     Store (ascii ''2024-01-01T00:00:01'') (ascii ''CASE003'') (ascii ''ABC Enterprises'')
       test_case
       (map_of
         [(ascii ''risk_level'', JStr (ascii ''ERROR'')),
          (ascii ''confidence'', JFloat 0),
          (ascii ''reason'', JStr (ascii ''API Error: 503 Service Unavailable'')),
          (ascii ''recommended_action'', JStr (ascii ''Manual review required''))])"

section \<open>Pipeline (case_fetcher.py, pipeline.py)\<close>

definition get_case_by_id :: "case_rec list \<Rightarrow> pystr \<Rightarrow> case_rec option" where
  "get_case_by_id cases cid = find (\<lambda>c. case_id c = Some cid) cases"

record pipeline_result =
  success :: bool
  pr_case_id :: pystr
  case_data :: "case_rec option"
  processed_context :: "pystr option"
  classification :: "json option"
  decision_record :: "decision_record option"
  error :: "pystr option"

text \<open>
  The pipeline holds the cases of the case source, the classifier (either variant, as the
  function from the context to its result or its exception), the mode, and the ledger.
  From outside the repository it uses: the write of the ledger to its file, which may
  raise; the standard output; \<open>str\<close> of an exception, of a value and of a float with
  the format specification \<open>,\<close>.
\<close>

record pipeline =
  fetcher_cases :: "case_rec list"
  classifier :: "pystr \<Rightarrow> py_error + json"
  demo_mode :: bool
  storage_results :: ledger
  save_results :: "ledger \<Rightarrow> py_error option"
  pipeline_stdout :: "pystr \<Rightarrow> py_error option"
  pipeline_exc_str :: "py_error \<Rightarrow> pystr"
  str_value :: "json \<Rightarrow> pystr"
  float_comma :: "rat \<Rightarrow> pystr"

text \<open>\<open>d[k]\<close> on a case field and on a classification.\<close>

definition subscript_field :: "pystr \<Rightarrow> 'a option \<Rightarrow> py_error + 'a" where
  "subscript_field k v = (case v of None \<Rightarrow> Inl (KeyError k) | Some x \<Rightarrow> Inr x)"

definition subscript :: "json \<Rightarrow> pystr \<Rightarrow> py_error + json" where
  "subscript r k =
     (case r of
        JObj m \<Rightarrow> (case m k of None \<Rightarrow> Inl (KeyError k) | Some v \<Rightarrow> Inr v)
      | _ \<Rightarrow> Inl TypeError)"

text \<open>The amount with the format specification \<open>,\<close>.\<close>

definition amount_comma :: "pipeline \<Rightarrow> number \<Rightarrow> pystr" where
  "amount_comma p a =
     (case a of
        PyInt i \<Rightarrow> (if i < 0 then 45 # group3 (nat (- i)) else group3 (nat i))
      | PyFloat x \<Rightarrow> float_comma p x
      | PyInf \<Rightarrow> ascii ''inf''
      | PyNegInf \<Rightarrow> ascii ''-inf''
      | PyNaN \<Rightarrow> ascii ''nan'')"

text \<open>The lines the pipeline prints.\<close>

definition line_fetch :: "pystr \<Rightarrow> pystr" where
  "line_fetch cid = nl @ [128229] @ ascii '' Step 1: Fetching case '' @ cid @ ascii ''...''"

definition line_found :: "pipeline \<Rightarrow> pystr \<Rightarrow> number \<Rightarrow> pystr" where
  "line_found p cname a =
     ascii ''   '' @ [10003] @ ascii '' Found: '' @ cname @ ascii '' - '' @ [8377]
     @ amount_comma p a"

definition line_step2 :: pystr where
  "line_step2 = [128260] @ ascii '' Step 2: Preprocessing case data...''"

definition line_context :: pystr where
  "line_context = ascii ''   '' @ [10003] @ ascii '' Context generated for AI''"

definition line_step3 :: "pipeline \<Rightarrow> pystr" where
  "line_step3 p =
     [129302] @ ascii '' Step 3: Classifying with ''
     @ (if demo_mode p then ascii ''Demo Classifier'' else ascii ''Gemini AI'') @ ascii ''...''"

definition line_risk :: "pipeline \<Rightarrow> json \<Rightarrow> pystr" where
  "line_risk p v = ascii ''   '' @ [10003] @ ascii '' Risk Level: '' @ str_value p v"

definition line_confidence :: "pipeline \<Rightarrow> json \<Rightarrow> pystr" where
  "line_confidence p v = ascii ''   '' @ [10003] @ ascii '' Confidence: '' @ str_value p v"

definition line_step4 :: pystr where
  "line_step4 = [128190] @ ascii '' Step 4: Storing decision for audit...''"

definition line_saved :: "decision_record \<Rightarrow> pystr" where
  "line_saved d = ascii ''   '' @ [10003] @ ascii '' Saved as '' @ decision_id d"

definition line_done :: "pystr \<Rightarrow> pystr" where
  "line_done cid = nl @ [9989] @ ascii '' Pipeline completed successfully for '' @ cid"

definition line_error :: "pipeline \<Rightarrow> py_error \<Rightarrow> pystr" where
  "line_error p e = nl @ [10060] @ ascii '' Pipeline error: '' @ pipeline_exc_str p e"

text \<open>
  The body of the \<open>try\<close>. Its value is the result record as far as it is filled in,
  the ledger, and the exception that ended it, if one did. \<open>print_then\<close> prints a line
  and goes on, or ends the body with the exception of the print.
\<close>

type_synonym outcome = "pipeline_result \<times> ledger \<times> py_error option"

definition print_then ::
  "pipeline \<Rightarrow> pystr \<Rightarrow> pipeline_result \<Rightarrow> ledger \<Rightarrow> outcome \<Rightarrow> outcome" where
  "print_then p line r l rest =
     (case pipeline_stdout p line of Some e \<Rightarrow> (r, l, Some e) | None \<Rightarrow> rest)"

definition finish :: "pipeline \<Rightarrow> pystr \<Rightarrow> pipeline_result \<Rightarrow> ledger \<Rightarrow> outcome" where
  "finish p cid r l =
     (let r' = r\<lparr>success := True\<rparr>
      in print_then p (line_done cid) r' l (r', l, None))"

text \<open>Step 4: the record is appended to the ledger, then the ledger is written.\<close>

definition store_step ::
  "pipeline \<Rightarrow> pystr \<Rightarrow> pystr \<Rightarrow> pipeline_result \<Rightarrow> case_rec \<Rightarrow> pystr
     \<Rightarrow> (pystr \<Rightarrow> json option) \<Rightarrow> outcome" where
  "store_step p now cid r cd cname m =
     print_then p line_step4 r (storage_results p)
       (let (d, l') = store_decision (storage_results p) now cid cname cd m
        in case save_results p l' of
             Some e \<Rightarrow> (r, l', Some e)
           | None \<Rightarrow>
               (let r' = r\<lparr>decision_record := Some d\<rparr>
                in print_then p (line_saved d) r' l' (finish p cid r' l')))"

text \<open>Step 3, after the classifier has returned \<open>cls\<close>.\<close>

definition classified_steps ::
  "pipeline \<Rightarrow> pystr \<Rightarrow> pystr \<Rightarrow> bool \<Rightarrow> pipeline_result \<Rightarrow> case_rec \<Rightarrow> pystr
     \<Rightarrow> json \<Rightarrow> outcome" where
  "classified_steps p now cid save_result r cd cname cls =
     (let l = storage_results p;
          r' = r\<lparr>classification := Some cls\<rparr>
      in case subscript cls (ascii ''risk_level'') of
           Inl e \<Rightarrow> (r', l, Some e)
         | Inr level \<Rightarrow>
             print_then p (line_risk p level) r' l
               (case cls of
                  JObj m \<Rightarrow>
                    print_then p
                      (line_confidence p
                        (case m (ascii ''confidence'') of
                           None \<Rightarrow> JStr (ascii ''N/A'') | Some v \<Rightarrow> v)) r' l
                      (if save_result then store_step p now cid r' cd cname m
                       else finish p cid r' l)
                | _ \<Rightarrow> (r', l, Some AttributeError)))"

text \<open>Steps 1 to 3, after the case is found.\<close>

definition found_steps ::
  "pipeline \<Rightarrow> pystr \<Rightarrow> pystr \<Rightarrow> bool \<Rightarrow> pipeline_result \<Rightarrow> case_rec \<Rightarrow> outcome" where
  "found_steps p now cid save_result r cd =
     (let l = storage_results p;
          r1 = r\<lparr>case_data := Some cd\<rparr>
      in case bind_err (subscript_field (ascii ''customer_name'') (customer_name cd)) (\<lambda>cname.
              bind_err (subscript_field (ascii ''amount'') (amount cd)) (\<lambda>a. Inr (cname, a))) of
           Inl e \<Rightarrow> (r1, l, Some e)
         | Inr (cname, a) \<Rightarrow>
             print_then p (line_found p cname a) r1 l
            (print_then p line_step2 r1 l
              (case preprocess (Some cd) of
                 Inl e \<Rightarrow> (r1, l, Some e)
               | Inr processed \<Rightarrow>
                   (let context = generate_prompt_context processed;
                        r2 = r1\<lparr>processed_context := Some context\<rparr>
                    in print_then p line_context r2 l
                      (print_then p (line_step3 p) r2 l
                        (case classifier p context of
                           Inl e \<Rightarrow> (r2, l, Some e)
                         | Inr cls \<Rightarrow>
                             classified_steps p now cid save_result r2 cd cname cls))))))"

definition try_body :: "pipeline \<Rightarrow> pystr \<Rightarrow> pystr \<Rightarrow> bool \<Rightarrow> outcome" where
  "try_body p now cid save_result =
     (let result =
        \<lparr>success = False, pr_case_id = cid, case_data = None, processed_context = None,
         classification = None, decision_record = None, error = None\<rparr>
      in print_then p (line_fetch cid) result (storage_results p)
           (case get_case_by_id (fetcher_cases p) cid of
              None \<Rightarrow>
                (result\<lparr>error :=
                   Some (ascii ''Case '' @ cid @ ascii '' not found in database'')\<rparr>,
                 storage_results p, None)
            | Some cd \<Rightarrow> found_steps p now cid save_result result cd))"

text \<open>
  \<open>process_case\<close>: the body, and the handler, which stores the message of the
  exception in the result, prints a line and returns the result. When the print of the
  handler raises, \<open>process_case\<close> raises.
\<close>

definition process_case ::
  "pipeline \<Rightarrow> pystr \<Rightarrow> pystr \<Rightarrow> bool \<Rightarrow> (py_error + pipeline_result) \<times> pipeline" where
  "process_case p now cid save_result =
     (case try_body p now cid save_result of
        (r, l, None) \<Rightarrow> (Inr r, p\<lparr>storage_results := l\<rparr>)
      | (r, l, Some e) \<Rightarrow>
          (case pipeline_stdout p (line_error p e) of
             Some raised \<Rightarrow> (Inl raised, p\<lparr>storage_results := l\<rparr>)
           | None \<Rightarrow>
               (Inr (r\<lparr>error := Some (pipeline_exc_str p e)\<rparr>),
                p\<lparr>storage_results := l\<rparr>)))"

text \<open>
  The pipeline of the demo mode, on the case of the quick test and an empty ledger, with
  a standard output \<open>out\<close>; \<open>str\<close> of a value is given for strings only, and the
  case of the quick test has no float.
\<close>

definition sample_str_value :: "json \<Rightarrow> pystr" where
  "sample_str_value v = (case v of JStr s \<Rightarrow> s | _ \<Rightarrow> [])"

definition demo_classifier :: "pystr \<Rightarrow> py_error + json" where
  "demo_classifier context = Inr (demo_classify_risk context)"

definition demo_pipeline :: "(pystr \<Rightarrow> py_error option) \<Rightarrow> pipeline" where
  "demo_pipeline out =
     \<lparr>fetcher_cases = [test_case], classifier = demo_classifier, demo_mode = True,
      storage_results = [], save_results = (\<lambda>l. None), pipeline_stdout = out,
      pipeline_exc_str = sample_exc_str, str_value = sample_str_value,
      float_comma = (\<lambda>x. [])\<rparr>"

section \<open>Facts about strings and number rendering\<close>

declare str_nat.simps [simp del]
declare group3.simps [simp del]

lemma str_nat_small [simp]: "n < 10 \<Longrightarrow> str_nat n = [48 + n]"
  by (subst str_nat.simps) simp

lemma str_nat_large [simp]:
  "\<not> n < 10 \<Longrightarrow> str_nat n = str_nat (n div 10) @ [48 + n mod 10]"
  by (subst str_nat.simps) simp

lemma group3_small [simp]: "n < 1000 \<Longrightarrow> group3 n = str_nat n"
  by (subst group3.simps) simp

lemma group3_large [simp]:
  "\<not> n < 1000 \<Longrightarrow>
     group3 n = group3 (n div 1000) @ [44] @ zfill 3 (str_nat (n mod 1000))"
  by (subst group3.simps) simp

lemma ascii_Nil: "ascii [] = []"
  by (simp add: ascii_def)

lemma ascii_Cons: "ascii (c # cs) = of_char c # ascii cs"
  by (simp add: ascii_def)

lemmas ascii_eval = ascii_Nil ascii_Cons

lemma digits_val_snoc: "digits_val (s @ [c]) = 10 * digits_val s + (c - 48)"
  by (simp add: digits_val_def)

lemma digits_val_append:
  "digits_val (a @ b) = digits_val a * 10 ^ length b + digits_val b"
proof (induction b rule: rev_induct)
  case Nil
  then show ?case by (simp add: digits_val_def)
next
  case (snoc c b)
  have "digits_val (a @ b @ [c]) = 10 * digits_val (a @ b) + (c - 48)"
    using digits_val_snoc [of "a @ b" c] by simp
  then show ?case
    using snoc digits_val_snoc [of b c] by (simp add: algebra_simps)
qed

lemma digits_val_zeros: "digits_val (replicate k 48) = 0"
  by (induction k) (simp_all add: digits_val_def)

lemma digits_val_zfill: "digits_val (zfill w s) = digits_val s"
  by (simp add: zfill_def digits_val_append digits_val_zeros)

lemma digits_val_str_nat: "digits_val (str_nat n) = n"
proof (induction n rule: str_nat.induct)
  case (1 n)
  show ?case
  proof (cases "n < 10")
    case True
    then show ?thesis by (simp add: digits_val_def)
  next
    case False
    then show ?thesis using 1 by (simp add: digits_val_snoc)
  qed
qed

lemma str_nat_digits: "c \<in> set (str_nat n) \<Longrightarrow> 48 \<le> c \<and> c \<le> 57"
proof (induction n rule: str_nat.induct)
  case (1 n)
  show ?case
  proof (cases "n < 10")
    case True
    then show ?thesis using 1(2) by simp
  next
    case False
    then show ?thesis using 1 by auto
  qed
qed

lemma length_str_nat_3: "n < 1000 \<Longrightarrow> length (str_nat n) \<le> 3"
proof -
  assume n: "n < 1000"
  have a: "\<And>m. m < 10 \<Longrightarrow> length (str_nat m) = 1" by simp
  have b: "\<And>m. m < 100 \<Longrightarrow> length (str_nat m) \<le> 2"
  proof -
    fix m :: nat assume "m < 100"
    then have "m div 10 < 10" by simp
    then show "length (str_nat m) \<le> 2" using a [of "m div 10"] by (cases "m < 10") simp_all
  qed
  have "n div 10 < 100" using n by simp
  then show ?thesis using b [of "n div 10"] by (cases "n < 10") simp_all
qed

lemma length_zfill: "length s \<le> w \<Longrightarrow> length (zfill w s) = w"
  by (simp add: zfill_def)

lemma filter_comma_str_nat: "filter (\<lambda>c. c \<noteq> 44) (str_nat n) = str_nat n"
  by (rule filter_True) (use str_nat_digits in fastforce)

lemma filter_comma_zfill:
  "filter (\<lambda>c. c \<noteq> 44) (zfill w (str_nat n)) = zfill w (str_nat n)"
  by (simp add: zfill_def filter_comma_str_nat)

lemma digits_val_group3: "digits_val (filter (\<lambda>c. c \<noteq> 44) (group3 n)) = n"
proof (induction n rule: group3.induct)
  case (1 n)
  show ?case
  proof (cases "n < 1000")
    case True
    then show ?thesis by (simp add: filter_comma_str_nat digits_val_str_nat)
  next
    case False
    have len: "length (zfill 3 (str_nat (n mod 1000))) = 3"
      by (rule length_zfill) (simp add: length_str_nat_3)
    show ?thesis
      using False 1 len
      by (simp add: filter_comma_zfill digits_val_append digits_val_zfill digits_val_str_nat)
  qed
qed

lemma round_half_even_of_int: "round_half_even (of_int k) = k"
  by (simp add: round_half_even_def)

lemma round_half_even_half:
  "round_half_even (of_int k + 1 / 2) = (if even k then k else k + 1)"
proof -
  have "\<lfloor>(of_int k + 1 / 2 :: rat)\<rfloor> = k" by (rule floor_unique) simp_all
  then show ?thesis by (simp add: round_half_even_def Let_def)
qed

lemma round_half_even_nonneg: "0 \<le> x \<Longrightarrow> 0 \<le> round_half_even x"
  by (auto simp: round_half_even_def Let_def)

lemma zfill_pad: "length s < w \<Longrightarrow> zfill w s = 48 # zfill (w - 1) s"
proof -
  assume "length s < w"
  then have "w - length s = Suc (w - 1 - length s)" by simp
  then show ?thesis by (simp add: zfill_def)
qed

lemma zfill_full: "w \<le> length s \<Longrightarrow> zfill w s = s"
  by (simp add: zfill_def)

lemmas zfill_eval = zfill_pad zfill_full

declare bitlen.simps [simp del]

lemma bitlen_le_iff: "bitlen n \<le> k \<longleftrightarrow> n < 2 ^ k"
proof (induction n arbitrary: k rule: bitlen.induct)
  case (1 n)
  show ?case
  proof (cases "n = 0")
    case True
    then show ?thesis by (subst bitlen.simps) simp
  next
    case False
    show ?thesis
    proof (cases k)
      case 0
      then show ?thesis using False by (subst bitlen.simps) simp
    next
      case (Suc j)
      have "bitlen n \<le> Suc j \<longleftrightarrow> bitlen (n div 2) \<le> j"
        using False by (subst bitlen.simps) simp
      also have "\<dots> \<longleftrightarrow> n div 2 < 2 ^ j" using 1 [OF False] .
      also have "\<dots> \<longleftrightarrow> n < 2 ^ Suc j" by auto
      finally show ?thesis using Suc by simp
    qed
  qed
qed

lemma float_round_small: "n \<le> 2 ^ 53 \<Longrightarrow> float_round n = n"
proof (cases "n < 2 ^ 53")
  case True
  then show ?thesis by (simp add: float_round_def bitlen_le_iff)
next
  case False
  assume "n \<le> 2 ^ 53"
  with False have n: "n = 2 ^ 53" by simp
  have b: "bitlen n = 54"
    using bitlen_le_iff [of n 54] bitlen_le_iff [of n 53] n by simp
  show ?thesis
    by (simp add: float_round_def b) (simp add: n)
qed

lemma bitlen_eq: "2 ^ k \<le> n \<Longrightarrow> n < 2 ^ Suc k \<Longrightarrow> bitlen n = Suc k"
  using bitlen_le_iff [of n "Suc k"] bitlen_le_iff [of n k] by simp

lemma float_round_example: "float_round 9007199254740993 = 9007199254740992"
proof -
  have "bitlen 9007199254740993 = Suc 53"
    by (rule bitlen_eq) simp_all
  then show ?thesis by (simp add: float_round_def Let_def)
qed

lemma float_round_power: "float_round (2 ^ k) = 2 ^ k"
proof (cases "k < 53")
  case True
  then have "(2::nat) ^ k < 2 ^ 53" by (simp only: power_strict_increasing_iff)
  then show ?thesis by (simp only: float_round_def bitlen_le_iff if_True)
next
  case False
  have b: "bitlen (2 ^ k) = Suc k"
    by (rule bitlen_eq) simp_all
  define e where "e = k - 52"
  have k: "k = 52 + e" and e: "0 < e" using False by (simp_all add: e_def)
  have e': "Suc k - 53 = e" using False by (simp add: e_def)
  have d: "(2::nat) ^ k div 2 ^ e = 2 ^ 52" "(2::nat) ^ k mod 2 ^ e = 0"
    unfolding k by (simp_all only: power_add) simp_all
  have h: "(0::nat) < 2 ^ (e - 1)" by simp
  have nb: "\<not> Suc k \<le> 53" using False by simp
  have "float_round (2 ^ k) = 2 ^ 52 * 2 ^ e"
    unfolding float_round_def b e' Let_def d using nb h by (simp only: if_False if_True)
  then show ?thesis unfolding k by (simp only: power_add)
qed

lemma fmt_finite_of_nat: "fmt_finite (of_nat n) = group3 n"
  using round_half_even_of_int [of "int n"] by (simp add: fmt_finite_def)

lemma fmt_finite_nonneg: "0 \<le> x \<Longrightarrow> fmt_finite x = group3 (nat (round_half_even x))"
  by (simp add: fmt_finite_def Let_def)

lemma fmt_comma_0f_int:
  "0 \<le> i \<Longrightarrow> fmt_comma_0f (PyInt i) =
     (if 2 ^ 1024 \<le> float_round (nat i) then Inl OverflowError
      else Inr (group3 (float_round (nat i))))"
  by (simp add: fmt_comma_0f_def float_of_int_def bind_err_def Let_def fmt_finite_of_nat)

lemmas amount_texts = categorize_amount_def amount_thresholds_def num_lt_def

section \<open>Amount categorisation\<close>

text \<open>
  C2, as the code has it. The bucket of an amount depends on the amount alone, with the
  boundaries 20000, 100000 and 500000 each belonging to the bucket that starts there, for
  an int and for a float. The text of the last bucket carries the amount as the format
  \<open>,.0f\<close> prints it: an int converted to a float, a float rounded to a whole number
  (ties to even), the digits grouped by commas. Reading the digits back gives that
  number, which is the amount itself for an int up to \<open>2 ^ 53\<close> and for a whole float.
  An int too large for a float raises; infinity and not-a-number fall into the last
  bucket and are spelled out.
\<close>

theorem categorize_amount_buckets:
  "(i < 20000 \<longrightarrow>
      categorize_amount (PyInt i) = Inr (ascii ''Low amount (below '' @ rupee @ ascii ''20,000)'')) \<and>
   (20000 \<le> i \<and> i < 100000 \<longrightarrow>
      categorize_amount (PyInt i) =
        Inr (ascii ''Medium amount ('' @ rupee @ ascii ''20,000 - '' @ rupee
               @ ascii ''1,00,000)'')) \<and>
   (100000 \<le> i \<and> i < 500000 \<longrightarrow>
      categorize_amount (PyInt i) =
        Inr (ascii ''High amount ('' @ rupee @ ascii ''1,00,000 - '' @ rupee
               @ ascii ''5,00,000)'')) \<and>
   (500000 \<le> i \<and> float_round (nat i) < 2 ^ 1024 \<longrightarrow>
      categorize_amount (PyInt i) =
        Inr (ascii ''Very high amount (above '' @ rupee @ ascii ''5,00,000 - specifically ''
               @ rupee @ group3 (float_round (nat i)) @ ascii '')'') \<and>
      digits_val (filter (\<lambda>c. c \<noteq> 44) (group3 (float_round (nat i))))
        = float_round (nat i)) \<and>
   (500000 \<le> i \<and> 2 ^ 1024 \<le> float_round (nat i) \<longrightarrow>
      categorize_amount (PyInt i) = Inl OverflowError) \<and>
   (500000 \<le> i \<and> i \<le> 2 ^ 53 \<longrightarrow> float_round (nat i) = nat i) \<and>
   (x < 20000 \<longrightarrow>
      categorize_amount (PyFloat x) =
        Inr (ascii ''Low amount (below '' @ rupee @ ascii ''20,000)'')) \<and>
   (20000 \<le> x \<and> x < 100000 \<longrightarrow>
      categorize_amount (PyFloat x) =
        Inr (ascii ''Medium amount ('' @ rupee @ ascii ''20,000 - '' @ rupee
               @ ascii ''1,00,000)'')) \<and>
   (100000 \<le> x \<and> x < 500000 \<longrightarrow>
      categorize_amount (PyFloat x) =
        Inr (ascii ''High amount ('' @ rupee @ ascii ''1,00,000 - '' @ rupee
               @ ascii ''5,00,000)'')) \<and>
   (500000 \<le> x \<longrightarrow>
      categorize_amount (PyFloat x) =
        Inr (ascii ''Very high amount (above '' @ rupee @ ascii ''5,00,000 - specifically ''
               @ rupee @ group3 (nat (round_half_even x)) @ ascii '')'') \<and>
      digits_val (filter (\<lambda>c. c \<noteq> 44) (group3 (nat (round_half_even x))))
        = nat (round_half_even x) \<and>
      (x \<in> \<int> \<longrightarrow> of_nat (nat (round_half_even x)) = x)) \<and>
   categorize_amount PyInf =
     Inr (ascii ''Very high amount (above '' @ rupee @ ascii ''5,00,000 - specifically ''
            @ rupee @ ascii ''inf'' @ ascii '')'') \<and>
   categorize_amount PyNaN =
     Inr (ascii ''Very high amount (above '' @ rupee @ ascii ''5,00,000 - specifically ''
            @ rupee @ ascii ''nan'' @ ascii '')'') \<and>
   categorize_amount PyNegInf = Inr (ascii ''Low amount (below '' @ rupee @ ascii ''20,000)'')"
proof -
  have int_part:
    "(i < 20000 \<longrightarrow>
      categorize_amount (PyInt i) = Inr (ascii ''Low amount (below '' @ rupee @ ascii ''20,000)'')) \<and>
   (20000 \<le> i \<and> i < 100000 \<longrightarrow>
      categorize_amount (PyInt i) =
        Inr (ascii ''Medium amount ('' @ rupee @ ascii ''20,000 - '' @ rupee
               @ ascii ''1,00,000)'')) \<and>
   (100000 \<le> i \<and> i < 500000 \<longrightarrow>
      categorize_amount (PyInt i) =
        Inr (ascii ''High amount ('' @ rupee @ ascii ''1,00,000 - '' @ rupee
               @ ascii ''5,00,000)''))"
    by (simp add: amount_texts)
  have vh: "categorize_amount (PyInt i) =
        Inr (ascii ''Very high amount (above '' @ rupee @ ascii ''5,00,000 - specifically ''
               @ rupee @ group3 (float_round (nat i)) @ ascii '')'')"
    if "500000 \<le> i" "float_round (nat i) < 2 ^ 1024"
    using that by (simp add: amount_texts fmt_comma_0f_int bind_err_def)
  have ov: "categorize_amount (PyInt i) = Inl OverflowError"
    if "500000 \<le> i" "2 ^ 1024 \<le> float_round (nat i)"
    using that by (simp add: amount_texts fmt_comma_0f_int bind_err_def)
  have ex: "float_round (nat i) = nat i" if "500000 \<le> i" "i \<le> 2 ^ 53"
  proof -
    have "nat i \<le> 2 ^ 53" using that by (simp add: nat_le_iff)
    then show ?thesis by (rule float_round_small)
  qed
  have float_part:
    "(x < 20000 \<longrightarrow>
      categorize_amount (PyFloat x) =
        Inr (ascii ''Low amount (below '' @ rupee @ ascii ''20,000)'')) \<and>
   (20000 \<le> x \<and> x < 100000 \<longrightarrow>
      categorize_amount (PyFloat x) =
        Inr (ascii ''Medium amount ('' @ rupee @ ascii ''20,000 - '' @ rupee
               @ ascii ''1,00,000)'')) \<and>
   (100000 \<le> x \<and> x < 500000 \<longrightarrow>
      categorize_amount (PyFloat x) =
        Inr (ascii ''High amount ('' @ rupee @ ascii ''1,00,000 - '' @ rupee
               @ ascii ''5,00,000)''))"
    by (simp add: amount_texts)
  have fvh: "categorize_amount (PyFloat x) =
        Inr (ascii ''Very high amount (above '' @ rupee @ ascii ''5,00,000 - specifically ''
               @ rupee @ group3 (nat (round_half_even x)) @ ascii '')'')"
    if "500000 \<le> x"
    using that by (simp add: amount_texts fmt_comma_0f_def fmt_finite_nonneg bind_err_def)
  have whole: "of_nat (nat (round_half_even x)) = x" if "500000 \<le> x" and "x \<in> \<int>"
  proof -
    from that(2) obtain k where k: "x = of_int k" by (auto elim: Ints_cases)
    with that(1) have "0 \<le> k" by simp
    then show ?thesis by (simp add: k round_half_even_of_int)
  qed
  have special: "categorize_amount PyInf =
     Inr (ascii ''Very high amount (above '' @ rupee @ ascii ''5,00,000 - specifically ''
            @ rupee @ ascii ''inf'' @ ascii '')'')"
    "categorize_amount PyNaN =
     Inr (ascii ''Very high amount (above '' @ rupee @ ascii ''5,00,000 - specifically ''
            @ rupee @ ascii ''nan'' @ ascii '')'')"
    "categorize_amount PyNegInf = Inr (ascii ''Low amount (below '' @ rupee @ ascii ''20,000)'')"
    by (simp_all add: amount_texts fmt_comma_0f_def bind_err_def)
  show ?thesis
    using int_part vh ov ex float_part fvh whole special digits_val_group3
    by (intro conjI impI) (simp_all only: simp_thms)
qed

theorem categorize_amount_buckets_witness:
  "categorize_amount (PyInt 19999) = Inr (ascii ''Low amount (below '' @ rupee @ ascii ''20,000)'') \<and>
   categorize_amount (PyInt 20000) =
     Inr (ascii ''Medium amount ('' @ rupee @ ascii ''20,000 - '' @ rupee @ ascii ''1,00,000)'') \<and>
   categorize_amount (PyInt 100000) =
     Inr (ascii ''High amount ('' @ rupee @ ascii ''1,00,000 - '' @ rupee @ ascii ''5,00,000)'') \<and>
   categorize_amount (PyInt 500000) =
     Inr (ascii ''Very high amount (above '' @ rupee @ ascii ''5,00,000 - specifically ''
            @ rupee @ ascii ''500,000)'') \<and>
   float_round (nat 500000) = nat 500000 \<and>
   categorize_amount (PyInt (2 ^ 1024)) = Inl OverflowError \<and>
   categorize_amount (PyFloat 19999) =
     Inr (ascii ''Low amount (below '' @ rupee @ ascii ''20,000)'') \<and>
   categorize_amount (PyFloat 20000) =
     Inr (ascii ''Medium amount ('' @ rupee @ ascii ''20,000 - '' @ rupee @ ascii ''1,00,000)'') \<and>
   categorize_amount (PyFloat 100000) =
     Inr (ascii ''High amount ('' @ rupee @ ascii ''1,00,000 - '' @ rupee @ ascii ''5,00,000)'') \<and>
   categorize_amount (PyFloat 500000) =
     Inr (ascii ''Very high amount (above '' @ rupee @ ascii ''5,00,000 - specifically ''
            @ rupee @ ascii ''500,000)'') \<and>
   (500000::rat) \<in> \<int> \<and> rat_of_nat (nat (round_half_even 500000)) = 500000"
proof -
  have fr: "float_round (nat 500000) = nat 500000"
    using categorize_amount_buckets [of 500000 0] by simp
  have fr': "float_round 500000 = 500000"
    using fr by simp
  have i4: "categorize_amount (PyInt 500000) =
     Inr (ascii ''Very high amount (above '' @ rupee @ ascii ''5,00,000 - specifically ''
            @ rupee @ ascii ''500,000)'')"
    using categorize_amount_buckets [of 500000 0]
    by (simp add: fr' zfill_eval ascii_eval)
  have n: "nat ((2::int) ^ 1024) = 2 ^ 1024"
    by (simp only: nat_power_eq zero_le_numeral nat_numeral)
  have big: "500000 \<le> (2::int) ^ 1024" by simp
  have ge: "(2::nat) ^ 1024 \<le> float_round (nat ((2::int) ^ 1024))"
    unfolding n float_round_power by (rule order_refl)
  have ov: "categorize_amount (PyInt (2 ^ 1024)) = Inl OverflowError"
    using categorize_amount_buckets [of "2 ^ 1024" 0] big ge by blast
  have re: "round_half_even 500000 = 500000"
    using round_half_even_of_int [of 500000] by simp
  have f4: "categorize_amount (PyFloat 500000) =
     Inr (ascii ''Very high amount (above '' @ rupee @ ascii ''5,00,000 - specifically ''
            @ rupee @ ascii ''500,000)'')"
    using categorize_amount_buckets [of 0 500000]
    by (simp add: re zfill_eval ascii_eval)
  show ?thesis
    using categorize_amount_buckets [of 19999 19999] categorize_amount_buckets [of 20000 20000]
      categorize_amount_buckets [of 100000 100000] i4 fr ov f4 re
    by simp
qed

text \<open>
  The float 600000.5 is rendered as 600,000, as the int 600000 is, and the int
  9007199254740993 as 9,007,199,254,740,992: the text of the last bucket does not always
  carry the exact value of the amount. For the int \<open>2 ^ 1024\<close> the categorisation
  raises, and yields no bucket.
\<close>

theorem categorize_amount_exact_counterexample:
  "categorize_amount (PyFloat (1200001 / 2)) =
     Inr (ascii ''Very high amount (above '' @ rupee @ ascii ''5,00,000 - specifically ''
            @ rupee @ ascii ''600,000)'') \<and>
   categorize_amount (PyFloat (1200001 / 2)) = categorize_amount (PyInt 600000) \<and>
   categorize_amount (PyInt 9007199254740993) =
     Inr (ascii ''Very high amount (above '' @ rupee @ ascii ''5,00,000 - specifically ''
            @ rupee @ ascii ''9,007,199,254,740,992)'') \<and>
   categorize_amount (PyInt (2 ^ 1024)) = Inl OverflowError"
proof -
  have "(1200001 / 2 :: rat) = of_int 600000 + 1 / 2" by simp
  then have r: "round_half_even (1200001 / 2) = 600000"
    using round_half_even_half [of 600000] by simp
  have a: "categorize_amount (PyFloat (1200001 / 2)) =
     Inr (ascii ''Very high amount (above '' @ rupee @ ascii ''5,00,000 - specifically ''
            @ rupee @ ascii ''600,000)'')"
    by (simp add: amount_texts fmt_comma_0f_def fmt_finite_nonneg bind_err_def r zfill_eval
        ascii_eval)
  have s: "float_round (nat 600000) = 600000"
    using float_round_small [of 600000] by simp
  have b: "categorize_amount (PyInt 600000) =
     Inr (ascii ''Very high amount (above '' @ rupee @ ascii ''5,00,000 - specifically ''
            @ rupee @ ascii ''600,000)'')"
    using s by (simp add: amount_texts fmt_comma_0f_int bind_err_def zfill_eval ascii_eval)
  have c: "categorize_amount (PyInt 9007199254740993) =
     Inr (ascii ''Very high amount (above '' @ rupee @ ascii ''5,00,000 - specifically ''
            @ rupee @ ascii ''9,007,199,254,740,992)'')"
    using float_round_example
    by (simp add: amount_texts fmt_comma_0f_int bind_err_def zfill_eval ascii_eval)
  have ovg: "categorize_amount (PyInt i) = Inl OverflowError"
    if "500000 \<le> i" "2 ^ 1024 \<le> float_round (nat i)" for i
    using that by (simp add: amount_texts fmt_comma_0f_int bind_err_def)
  have n: "nat ((2::int) ^ 1024) = 2 ^ 1024"
    by (simp only: nat_power_eq zero_le_numeral nat_numeral)
  have big: "500000 \<le> (2::int) ^ 1024" by simp
  have ge: "(2::nat) ^ 1024 \<le> float_round (nat ((2::int) ^ 1024))"
    unfolding n float_round_power by (rule order_refl)
  have d: "categorize_amount (PyInt (2 ^ 1024)) = Inl OverflowError"
    using ovg [of "2 ^ 1024"] big ge by blast
  show ?thesis
    by (intro conjI a c d) (simp only: a b)
qed

section \<open>Substring search\<close>

lemma starts_with_iff: "starts_with p s \<longleftrightarrow> (\<exists>b. s = p @ b)"
  by (induction p s rule: starts_with.induct) auto

lemma str_in_iff: "str_in p s \<longleftrightarrow> (\<exists>a b. s = a @ p @ b)"
proof (induction s)
  case Nil
  then show ?case by simp
next
  case (Cons c cs)
  show ?case
  proof
    assume "str_in p (c # cs)"
    then consider "starts_with p (c # cs)" | "str_in p cs" by auto
    then show "\<exists>a b. c # cs = a @ p @ b"
    proof cases
      case 1
      then obtain b where "c # cs = p @ b" using starts_with_iff by blast
      then have "c # cs = [] @ p @ b" by simp
      then show ?thesis by blast
    next
      case 2
      then obtain a b where "cs = a @ p @ b" using Cons.IH by blast
      then have "c # cs = (c # a) @ p @ b" by simp
      then show ?thesis by blast
    qed
  next
    assume "\<exists>a b. c # cs = a @ p @ b"
    then obtain a b where ab: "c # cs = a @ p @ b" by blast
    show "str_in p (c # cs)"
    proof (cases a)
      case Nil
      then have "starts_with p (c # cs)" using ab starts_with_iff by auto
      then show ?thesis by simp
    next
      case (Cons x a')
      then have "cs = a' @ p @ b" using ab by simp
      then have "str_in p cs" using Cons.IH by blast
      then show ?thesis by simp
    qed
  qed
qed

lemma str_in_mid: "str_in p x \<Longrightarrow> str_in p (a @ x @ b)"
proof -
  assume "str_in p x"
  then obtain u v where "x = u @ p @ v" using str_in_iff by blast
  then have "a @ x @ b = (a @ u) @ p @ (v @ b)" by simp
  then show ?thesis using str_in_iff by blast
qed

lemma str_in_prefix: "str_in p (p @ b)"
  using str_in_iff [of p "p @ b"] by (metis append_Nil)

lemma lower_append: "lower (a @ b) = lower a @ lower b"
  by (simp add: lower_def)

lemma ascii_append: "ascii (a @ b) = ascii a @ ascii b"
  by (simp add: ascii_def)

lemma score_count: "score inds s = length (filter (\<lambda>p. str_in p s) inds)"
  by (induction inds) (simp_all add: score_def)

section \<open>The rendered context of the high-risk scenario\<close>

lemma amount_context_high:
  assumes "a = PyInt 600000 \<or> a = PyFloat 600000"
  shows "\<exists>t. categorize_amount a = Inr t \<and> str_in (ascii ''very high amount'') (lower t)"
proof -
  let ?t = "ascii ''Very high amount'' @
      (ascii '' (above '' @ rupee @ ascii ''5,00,000 - specifically ''
          @ rupee @ group3 600000 @ ascii '')'')"
  have l: "lower (ascii ''Very high amount'') = ascii ''very high amount''"
    by (simp add: lower_def lower_cp_def ascii_eval)
  have fr: "float_round 600000 = 600000"
    using float_round_small [of 600000] by simp
  have ff: "fmt_finite 600000 = group3 600000"
    using fmt_finite_of_nat [of 600000] by simp
  have "categorize_amount (PyInt 600000) = Inr ?t"
    by (simp add: amount_texts fmt_comma_0f_int fr bind_err_def ascii_eval)
  moreover have "categorize_amount (PyFloat 600000) = Inr ?t"
    by (simp add: amount_texts fmt_comma_0f_def ff bind_err_def ascii_eval)
  ultimately have e: "categorize_amount a = Inr ?t"
    using assms by blast
  have "str_in (ascii ''very high amount'') (lower ?t)"
    unfolding lower_append l by (rule str_in_prefix)
  then show ?thesis using e by blast
qed

lemma overdue_context_high:
  "str_in (ascii ''critically overdue'') (lower (categorize_overdue 150))"
  "str_in (ascii ''immediate action required'') (lower (categorize_overdue 150))"
proof -
  have e: "categorize_overdue 150 = ascii ''Critically overdue'' @
      (ascii '' ('' @ str_int 150 @ ascii '' days - immediate action required)'')"
    by (simp add: categorize_overdue_def overdue_thresholds_def ascii_eval)
  have l: "lower (ascii ''Critically overdue'') = ascii ''critically overdue''"
    by (simp add: lower_def lower_cp_def ascii_eval)
  show "str_in (ascii ''critically overdue'') (lower (categorize_overdue 150))"
    unfolding e lower_append l by (rule str_in_prefix)
  have e2: "categorize_overdue 150 = (ascii ''Critically overdue ('' @ str_int 150 @ ascii '' days - '')
      @ (ascii ''immediate action required'' @ []) @ ascii '')''"
    by (simp add: categorize_overdue_def overdue_thresholds_def ascii_eval)
  have l2: "lower (ascii ''immediate action required'') = ascii ''immediate action required''"
    by (simp add: lower_def lower_cp_def ascii_eval)
  show "str_in (ascii ''immediate action required'') (lower (categorize_overdue 150))"
    unfolding e2 lower_append l2 by (rule str_in_mid) (rule str_in_prefix)
qed

lemma attempts_context_high:
  "str_in (ascii ''exhaustive recovery attempts'') (lower (categorize_attempts 9))"
proof -
  have e: "categorize_attempts 9 = ascii ''Exhaustive recovery attempts'' @
      (ascii '' failed ('' @ str_int 9 @ ascii '' attempts - customer unresponsive)'')"
    by (simp add: categorize_attempts_def attempts_thresholds_def ascii_eval)
  have l: "lower (ascii ''Exhaustive recovery attempts'') = ascii ''exhaustive recovery attempts''"
    by (simp add: lower_def lower_cp_def ascii_eval)
  show ?thesis unfolding e lower_append l by (rule str_in_prefix)
qed

lemma context_parts:
  assumes "str_in p (lower (amount_context q)) \<or> str_in p (lower (overdue_context q))
     \<or> str_in p (lower (attempts_context q))"
  shows "str_in p (lower (generate_prompt_context (Some q)))"
proof -
  let ?g = "generate_prompt_context (Some q)"
  have a: "?g = (nl @ ascii ''CASE DETAILS FOR RISK ASSESSMENT:'' @ nl
          @ rule_line @ nl
          @ ascii ''Case ID: '' @ fmt_opt (ctx_case_id q) @ nl
          @ ascii ''Customer: '' @ fmt_opt (ctx_customer_name q) @ nl
          @ nl
          @ ascii ''FINANCIAL CONTEXT:'' @ nl
          @ ascii ''- Amount: '') @ amount_context q @ (nl
          @ ascii ''- Loan Type: '' @ loan_context q @ nl
          @ nl
          @ ascii ''OVERDUE STATUS:'' @ nl
          @ ascii ''- Duration: '' @ overdue_context q @ nl
          @ nl
          @ ascii ''RECOVERY HISTORY:'' @ nl
          @ ascii ''- Past Attempts: '' @ attempts_context q @ nl
          @ nl
          @ ascii ''CUSTOMER PROFILE:'' @ nl
          @ ascii ''- Type: '' @ customer_context q @ nl
          @ rule_line @ nl)"
    by (simp add: generate_prompt_context_def)
  have b: "?g = (nl @ ascii ''CASE DETAILS FOR RISK ASSESSMENT:'' @ nl
          @ rule_line @ nl
          @ ascii ''Case ID: '' @ fmt_opt (ctx_case_id q) @ nl
          @ ascii ''Customer: '' @ fmt_opt (ctx_customer_name q) @ nl
          @ nl
          @ ascii ''FINANCIAL CONTEXT:'' @ nl
          @ ascii ''- Amount: '' @ amount_context q @ nl
          @ ascii ''- Loan Type: '' @ loan_context q @ nl
          @ nl
          @ ascii ''OVERDUE STATUS:'' @ nl
          @ ascii ''- Duration: '') @ overdue_context q @ (nl
          @ nl
          @ ascii ''RECOVERY HISTORY:'' @ nl
          @ ascii ''- Past Attempts: '' @ attempts_context q @ nl
          @ nl
          @ ascii ''CUSTOMER PROFILE:'' @ nl
          @ ascii ''- Type: '' @ customer_context q @ nl
          @ rule_line @ nl)"
    by (simp add: generate_prompt_context_def)
  have c: "?g = (nl @ ascii ''CASE DETAILS FOR RISK ASSESSMENT:'' @ nl
          @ rule_line @ nl
          @ ascii ''Case ID: '' @ fmt_opt (ctx_case_id q) @ nl
          @ ascii ''Customer: '' @ fmt_opt (ctx_customer_name q) @ nl
          @ nl
          @ ascii ''FINANCIAL CONTEXT:'' @ nl
          @ ascii ''- Amount: '' @ amount_context q @ nl
          @ ascii ''- Loan Type: '' @ loan_context q @ nl
          @ nl
          @ ascii ''OVERDUE STATUS:'' @ nl
          @ ascii ''- Duration: '' @ overdue_context q @ nl
          @ nl
          @ ascii ''RECOVERY HISTORY:'' @ nl
          @ ascii ''- Past Attempts: '') @ attempts_context q @ (nl
          @ nl
          @ ascii ''CUSTOMER PROFILE:'' @ nl
          @ ascii ''- Type: '' @ customer_context q @ nl
          @ rule_line @ nl)"
    by (simp add: generate_prompt_context_def)
  from assms consider "str_in p (lower (amount_context q))"
    | "str_in p (lower (overdue_context q))" | "str_in p (lower (attempts_context q))"
    by blast
  then show ?thesis
  proof cases
    case 1
    then show ?thesis by (subst a) (simp only: lower_append str_in_mid)
  next
    case 2
    then show ?thesis by (subst b) (simp only: lower_append str_in_mid)
  next
    case 3
    then show ?thesis by (subst c) (simp only: lower_append str_in_mid)
  qed
qed

lemma ascii_eq_iff [simp]: "ascii a = ascii b \<longleftrightarrow> a = b"
proof -
  have "inj (of_char :: char \<Rightarrow> nat)" by (rule injI) simp
  then have "inj (map (of_char :: char \<Rightarrow> nat))" by simp
  then show ?thesis unfolding ascii_def by (auto dest: injD)
qed

lemma field_dict_of: "field (dict_of kvs) k = map_of (rev kvs) (ascii k)"
  by (simp add: field_def dict_of_def)

section \<open>The rule-based classifier\<close>

text \<open>
  C1. The rule-based classifier lowers the context and counts which of the four high-risk
  and of the four low-risk phrases occur in it. Two or more high-risk phrases give HIGH
  (confidence 0.85, recovery 30, LOW); otherwise two or more low-risk phrases give LOW
  (0.90, 85, VERY HIGH); otherwise MEDIUM (0.75, 55, MODERATE). The classifier is a total
  function of the context. Every case with amount 600000, 150 days overdue and 9 past
  attempts is rendered to a context classified HIGH with confidence 0.85.
\<close>

theorem demo_classify_risk_rules:
  "high_risk_indicators =
     [ascii ''critically overdue'', ascii ''exhaustive recovery attempts'',
      ascii ''very high amount'', ascii ''immediate action required''] \<and>
   low_risk_indicators =
     [ascii ''recently overdue'', ascii ''no recovery attempts'',
      ascii ''low amount'', ascii ''within grace period''] \<and>
   score high_risk_indicators (lower ctx) =
     length (filter (\<lambda>p. str_in p (lower ctx)) high_risk_indicators) \<and>
   score low_risk_indicators (lower ctx) =
     length (filter (\<lambda>p. str_in p (lower ctx)) low_risk_indicators) \<and>
   (2 \<le> score high_risk_indicators (lower ctx) \<longrightarrow>
      field (demo_classify_risk ctx) ''risk_level'' = Some (JStr (ascii ''HIGH'')) \<and>
      field (demo_classify_risk ctx) ''confidence'' = Some (JFloat (85 / 100)) \<and>
      field (demo_classify_risk ctx) ''recovery_percentage'' = Some (JInt 30) \<and>
      field (demo_classify_risk ctx) ''recovery_probability'' = Some (JStr (ascii ''LOW''))) \<and>
   (score high_risk_indicators (lower ctx) < 2 \<and>
    2 \<le> score low_risk_indicators (lower ctx) \<longrightarrow>
      field (demo_classify_risk ctx) ''risk_level'' = Some (JStr (ascii ''LOW'')) \<and>
      field (demo_classify_risk ctx) ''confidence'' = Some (JFloat (90 / 100)) \<and>
      field (demo_classify_risk ctx) ''recovery_percentage'' = Some (JInt 85) \<and>
      field (demo_classify_risk ctx) ''recovery_probability'' =
        Some (JStr (ascii ''VERY HIGH''))) \<and>
   (score high_risk_indicators (lower ctx) < 2 \<and>
    score low_risk_indicators (lower ctx) < 2 \<longrightarrow>
      field (demo_classify_risk ctx) ''risk_level'' = Some (JStr (ascii ''MEDIUM'')) \<and>
      field (demo_classify_risk ctx) ''confidence'' = Some (JFloat (75 / 100)) \<and>
      field (demo_classify_risk ctx) ''recovery_percentage'' = Some (JInt 55) \<and>
      field (demo_classify_risk ctx) ''recovery_probability'' =
        Some (JStr (ascii ''MODERATE''))) \<and>
   ((amount c = Some (PyInt 600000) \<or> amount c = Some (PyFloat 600000)) \<and>
    days_overdue c = Some 150 \<and> past_attempts c = Some 9 \<longrightarrow>
      (\<exists>q. preprocess (Some c) = Inr (Some q) \<and>
        field (demo_classify_risk (generate_prompt_context (Some q))) ''risk_level''
          = Some (JStr (ascii ''HIGH'')) \<and>
        field (demo_classify_risk (generate_prompt_context (Some q))) ''confidence''
          = Some (JFloat (85 / 100))))"
proof -
  have branches: "\<And>x.
    (2 \<le> score high_risk_indicators (lower x) \<longrightarrow>
      field (demo_classify_risk x) ''risk_level'' = Some (JStr (ascii ''HIGH'')) \<and>
      field (demo_classify_risk x) ''confidence'' = Some (JFloat (85 / 100)) \<and>
      field (demo_classify_risk x) ''recovery_percentage'' = Some (JInt 30) \<and>
      field (demo_classify_risk x) ''recovery_probability'' = Some (JStr (ascii ''LOW''))) \<and>
    (score high_risk_indicators (lower x) < 2 \<and>
     2 \<le> score low_risk_indicators (lower x) \<longrightarrow>
      field (demo_classify_risk x) ''risk_level'' = Some (JStr (ascii ''LOW'')) \<and>
      field (demo_classify_risk x) ''confidence'' = Some (JFloat (90 / 100)) \<and>
      field (demo_classify_risk x) ''recovery_percentage'' = Some (JInt 85) \<and>
      field (demo_classify_risk x) ''recovery_probability'' =
        Some (JStr (ascii ''VERY HIGH''))) \<and>
    (score high_risk_indicators (lower x) < 2 \<and>
     score low_risk_indicators (lower x) < 2 \<longrightarrow>
      field (demo_classify_risk x) ''risk_level'' = Some (JStr (ascii ''MEDIUM'')) \<and>
      field (demo_classify_risk x) ''confidence'' = Some (JFloat (75 / 100)) \<and>
      field (demo_classify_risk x) ''recovery_percentage'' = Some (JInt 55) \<and>
      field (demo_classify_risk x) ''recovery_probability'' =
        Some (JStr (ascii ''MODERATE'')))"
    by (simp add: demo_classify_risk_def Let_def field_dict_of)
  have scen: "\<exists>q. preprocess (Some c) = Inr (Some q) \<and>
      2 \<le> score high_risk_indicators (lower (generate_prompt_context (Some q)))"
    if c: "amount c = Some (PyInt 600000) \<or> amount c = Some (PyFloat 600000)"
      "days_overdue c = Some 150" "past_attempts c = Some 9"
  proof -
    obtain a where a: "amount c = Some a" "a = PyInt 600000 \<or> a = PyFloat 600000"
      using c(1) by blast
    obtain t where t: "categorize_amount a = Inr t"
      "str_in (ascii ''very high amount'') (lower t)"
      using amount_context_high [OF a(2)] by blast
    obtain q where q: "preprocess (Some c) = Inr (Some q)"
      "amount_context q = t"
      "overdue_context q = categorize_overdue 150"
      "attempts_context q = categorize_attempts 9"
      using a(1) t(1) c(2,3) by (simp add: preprocess_def falsy_case_def get_or_def bind_err_def)
    have "2 \<le> score high_risk_indicators (lower (generate_prompt_context (Some q)))"
      unfolding score_count high_risk_indicators_def
      using context_parts [of _ q] t(2) overdue_context_high attempts_context_high
      by (simp add: q)
    then show ?thesis using q(1) by blast
  qed
  have scenario: "(amount c = Some (PyInt 600000) \<or> amount c = Some (PyFloat 600000)) \<and>
    days_overdue c = Some 150 \<and> past_attempts c = Some 9 \<longrightarrow>
      (\<exists>q. preprocess (Some c) = Inr (Some q) \<and>
        field (demo_classify_risk (generate_prompt_context (Some q))) ''risk_level''
          = Some (JStr (ascii ''HIGH'')) \<and>
        field (demo_classify_risk (generate_prompt_context (Some q))) ''confidence''
          = Some (JFloat (85 / 100)))"
    using scen branches by blast
  show ?thesis
    using branches [of ctx] scenario
    by (simp add: score_count high_risk_indicators_def low_risk_indicators_def)
qed

lemmas score_eval = score_def high_risk_indicators_def low_risk_indicators_def
  lower_def lower_cp_def ascii_eval

theorem demo_classify_risk_rules_witness:
  "2 \<le> score high_risk_indicators (lower (ascii ''Very High Amount, CRITICALLY overdue'')) \<and>
   field (demo_classify_risk (ascii ''Very High Amount, CRITICALLY overdue'')) ''risk_level''
     = Some (JStr (ascii ''HIGH'')) \<and>
   score high_risk_indicators (lower (ascii ''Low amount, Recently overdue'')) < 2 \<and>
   2 \<le> score low_risk_indicators (lower (ascii ''Low amount, Recently overdue'')) \<and>
   field (demo_classify_risk (ascii ''Low amount, Recently overdue'')) ''risk_level''
     = Some (JStr (ascii ''LOW'')) \<and>
   score high_risk_indicators (lower (ascii ''Long overdue'')) < 2 \<and>
   score low_risk_indicators (lower (ascii ''Long overdue'')) < 2 \<and>
   field (demo_classify_risk (ascii ''Long overdue'')) ''risk_level''
     = Some (JStr (ascii ''MEDIUM'')) \<and>
   \<not> isl (preprocess (Some
       \<lparr>case_id = Some (ascii ''CASE003''), customer_name = Some (ascii ''ABC Enterprises''),
        amount = Some (PyInt 600000), days_overdue = Some 150, past_attempts = Some 9,
        customer_type = Some (ascii ''Business''),
        loan_type = Some (ascii ''Business Loan''), other_keys = False\<rparr>)) \<and>
   field (demo_classify_risk (generate_prompt_context (projr (preprocess (Some
       \<lparr>case_id = Some (ascii ''CASE003''), customer_name = Some (ascii ''ABC Enterprises''),
        amount = Some (PyInt 600000), days_overdue = Some 150, past_attempts = Some 9,
        customer_type = Some (ascii ''Business''),
        loan_type = Some (ascii ''Business Loan''), other_keys = False\<rparr>))))) ''risk_level''
     = Some (JStr (ascii ''HIGH''))"
proof -
  let ?c = "\<lparr>case_id = Some (ascii ''CASE003''), customer_name = Some (ascii ''ABC Enterprises''),
        amount = Some (PyInt 600000), days_overdue = Some 150, past_attempts = Some 9,
        customer_type = Some (ascii ''Business''),
        loan_type = Some (ascii ''Business Loan''), other_keys = False\<rparr>"
  have h1: "2 \<le> score high_risk_indicators
      (lower (ascii ''Very High Amount, CRITICALLY overdue''))"
    by (simp add: score_eval)
  have h2: "score high_risk_indicators (lower (ascii ''Low amount, Recently overdue'')) < 2"
    "2 \<le> score low_risk_indicators (lower (ascii ''Low amount, Recently overdue''))"
    by (simp_all add: score_eval)
  have h3: "score high_risk_indicators (lower (ascii ''Long overdue'')) < 2"
    "score low_risk_indicators (lower (ascii ''Long overdue'')) < 2"
    by (simp_all add: score_eval)
  obtain q where q: "preprocess (Some ?c) = Inr (Some q)"
    "field (demo_classify_risk (generate_prompt_context (Some q))) ''risk_level''
       = Some (JStr (ascii ''HIGH''))"
    using demo_classify_risk_rules [of "ascii ''Long overdue''" ?c] by auto
  show ?thesis
    using demo_classify_risk_rules [of "ascii ''Very High Amount, CRITICALLY overdue''" ?c]
      demo_classify_risk_rules [of "ascii ''Low amount, Recently overdue''" ?c]
      demo_classify_risk_rules [of "ascii ''Long overdue''" ?c]
      h1 h2 h3 q
    by simp
qed

section \<open>Decision identifiers\<close>

lemma drop_DEC: "drop 3 (ascii ''DEC'' @ x) = x"
  by (simp add: ascii_eval)

lemma dec_id_val: "digits_val (drop 3 (dec_id n)) = n"
  by (simp only: dec_id_def drop_DEC digits_val_zfill digits_val_str_nat)

lemma dec_id_inj: "dec_id n = dec_id m \<Longrightarrow> n = m"
  by (metis dec_id_val)

lemma store_decision_id:
  "decision_id (fst (store_decision results now cid cname raw cls)) = dec_id (length results + 1)"
  by (simp add: store_decision_def Let_def)

lemma store_decision_ledger:
  "snd (store_decision results now cid cname raw cls)
     = results @ [fst (store_decision results now cid cname raw cls)]"
  by (simp add: store_decision_def Let_def)

lemma history_stores:
  "Clear \<notin> set ops \<Longrightarrow>
   fst (history ops results) = map (\<lambda>i. dec_id (length results + 1 + i)) [0..<length ops] \<and>
   map decision_id (snd (history ops results))
     = map decision_id results @ fst (history ops results)"
proof (induction ops arbitrary: results)
  case Nil
  then show ?case by simp
next
  case (Cons op ops)
  show ?case
  proof (cases op)
    case (Store now cid cname raw cls)
    obtain d where st: "store_decision results now cid cname raw cls = (d, results @ [d])"
      and did: "decision_id d = dec_id (length results + 1)"
      using store_decision_ledger [of results now cid cname raw cls]
        store_decision_id [of results now cid cname raw cls]
      by (metis prod.collapse)
    have ih: "fst (history ops (results @ [d]))
        = map (\<lambda>i. dec_id (length results + 2 + i)) [0..<length ops] \<and>
      map decision_id (snd (history ops (results @ [d])))
        = map decision_id results @ dec_id (length results + 1) # fst (history ops (results @ [d]))"
      using Cons.IH [of "results @ [d]"] Cons.prems did by simp
    have m: "map (\<lambda>i. dec_id (length results + 1 + i)) [0..<Suc (length ops)]
        = dec_id (length results + 1) # map (\<lambda>i. dec_id (length results + 2 + i)) [0..<length ops]"
      by (simp add: upt_conv_Cons map_Suc_upt [symmetric] del: upt_Suc)
    have h: "history (op # ops) results
        = (dec_id (length results + 1) # fst (history ops (results @ [d])),
           snd (history ops (results @ [d])))"
      by (simp add: Store st did split_beta)
    show ?thesis
      unfolding h using ih m by (simp del: upt_Suc)
  next
    case Clear
    then show ?thesis using Cons.prems by simp
  qed
qed

section \<open>The ledger is append-only\<close>

text \<open>
  C7, as the code has it. A call of \<open>store_decision\<close> appends exactly one record, keeps
  the records stored before, and gives the new record the identifier DEC followed by the
  number of existing records plus one, padded with zeros to five digits. Over a history
  of calls from the empty ledger in which \<open>clear_all\<close> does not occur, the identifiers
  issued are unique and strictly increasing, and they are the identifiers in the ledger.
\<close>

theorem store_decision_append_only:
  "(let (d, results') = store_decision results now cid cname raw cls
    in results' = results @ [d] \<and> length results' = length results + 1 \<and>
       take (length results) results' = results \<and>
       decision_id d = ascii ''DEC'' @ zfill 5 (str_nat (length results + 1)) \<and>
       digits_val (drop 3 (decision_id d)) = length results + 1) \<and>
   (Clear \<notin> set ops \<longrightarrow>
      (let (ids, final) = history ops []
       in length ids = length ops \<and> map decision_id final = ids \<and> distinct ids \<and>
          (\<forall>i j. i < j \<and> j < length ids \<longrightarrow>
             digits_val (drop 3 (ids ! i)) < digits_val (drop 3 (ids ! j)))))"
proof -
  have one: "let (d, results') = store_decision results now cid cname raw cls
    in results' = results @ [d] \<and> length results' = length results + 1 \<and>
       take (length results) results' = results \<and>
       decision_id d = ascii ''DEC'' @ zfill 5 (str_nat (length results + 1)) \<and>
       digits_val (drop 3 (decision_id d)) = length results + 1"
    using dec_id_val [of "length results + 1"]
    by (simp add: store_decision_def Let_def dec_id_def)
  have many: "let (ids, final) = history ops []
       in length ids = length ops \<and> map decision_id final = ids \<and> distinct ids \<and>
          (\<forall>i j. i < j \<and> j < length ids \<longrightarrow>
             digits_val (drop 3 (ids ! i)) < digits_val (drop 3 (ids ! j)))"
    if "Clear \<notin> set ops"
  proof -
    have ids: "fst (history ops []) = map (\<lambda>i. dec_id (1 + i)) [0..<length ops]"
      and fin: "map decision_id (snd (history ops [])) = fst (history ops [])"
      using history_stores [OF that, of "[]"] by simp_all
    have inj: "inj_on (\<lambda>i. dec_id (Suc i)) {0..<length ops}"
      by (rule inj_onI) (auto dest: dec_id_inj)
    have d: "distinct (fst (history ops []))"
      unfolding ids by (simp add: distinct_map inj del: upt_Suc)
    have v: "digits_val (drop 3 (fst (history ops []) ! i)) = 1 + i" if "i < length ops" for i
      unfolding ids using that by (simp add: dec_id_val del: upt_Suc)
    have l: "length (fst (history ops [])) = length ops"
      unfolding ids by simp
    show ?thesis
      using d v l fin by (simp add: split_beta)
  qed
  show ?thesis using one many by blast
qed

lemmas ledger_eval = test_store_def store_decision_def dec_id_def clear_all_def
  zfill_eval ascii_eval split_beta Let_def

theorem store_decision_append_only_witness:
  "Clear \<notin> set [test_store, test_store] \<and>
   fst (history [test_store, test_store] []) = [ascii ''DEC00001'', ascii ''DEC00002''] \<and>
   distinct (fst (history [test_store, test_store] [])) \<and>
   length (snd (history [test_store, test_store] [])) = 2"
proof -
  have e: "fst (history [test_store, test_store] []) = [ascii ''DEC00001'', ascii ''DEC00002'']"
    by (simp add: ledger_eval)
  have c: "Clear \<notin> set [test_store, test_store]"
    by (simp add: test_store_def)
  have "length (map decision_id (snd (history [test_store, test_store] []))) = 2"
    using store_decision_append_only [of "[]" "[]" "[]" "[]" test_case test_result
        "[test_store, test_store]"] c
    by (simp add: split_beta)
  then have l: "length (snd (history [test_store, test_store] [])) = 2" by simp
  show ?thesis
    using store_decision_append_only [of "[]" "[]" "[]" "[]" test_case test_result
        "[test_store, test_store]"] c e l
    by (simp add: split_beta)
qed

text \<open>
  After \<open>clear_all\<close> the numbering starts again: the two calls of this history return the
  same identifier.
\<close>

theorem decision_id_reuse_counterexample:
  "fst (history [test_store, Clear, test_store] []) = [ascii ''DEC00001'', ascii ''DEC00001''] \<and>
   \<not> distinct (fst (history [test_store, Clear, test_store] []))"
  by (simp add: ledger_eval)

section \<open>Statistics of the ledger\<close>


lemma round1_tenths: "\<exists>z::int. round1 x = of_int z / 10"
  unfolding round1_def by blast


lemma percentage_ok:
  "t \<noteq> 0 \<Longrightarrow> percentage k t = Inr (round1 (of_nat k / of_nat t * 100))"
  by (simp add: percentage_def py_truediv_def)

lemma get_statistics_empty:
  "get_statistics [] =
     Inr (dict_of [(ascii ''total'', JInt 0), (ascii ''high'', JInt 0),
                   (ascii ''medium'', JInt 0), (ascii ''low'', JInt 0)])"
  by (simp add: get_statistics_def)

lemma get_statistics_nonempty:
  "results \<noteq> [] \<Longrightarrow>
   get_statistics results =
     Inr (dict_of
       [(ascii ''total'', JInt (int (length results))),
        (ascii ''high'', JInt (int (length (get_decisions_by_risk results (ascii ''HIGH''))))),
        (ascii ''medium'', JInt (int (length (get_decisions_by_risk results (ascii ''MEDIUM''))))),
        (ascii ''low'', JInt (int (length (get_decisions_by_risk results (ascii ''LOW''))))),
        (ascii ''high_percentage'', JFloat (round1
           (of_nat (length (get_decisions_by_risk results (ascii ''HIGH'')))
              / of_nat (length results) * 100))),
        (ascii ''medium_percentage'', JFloat (round1
           (of_nat (length (get_decisions_by_risk results (ascii ''MEDIUM'')))
              / of_nat (length results) * 100))),
        (ascii ''low_percentage'', JFloat (round1
           (of_nat (length (get_decisions_by_risk results (ascii ''LOW'')))
              / of_nat (length results) * 100)))])"
  by (simp add: get_statistics_def Let_def percentage_ok)


lemma count_levels:
  assumes "\<And>x. \<not> (P x \<and> Q x)" and "\<And>x. \<not> (P x \<and> R x)" and "\<And>x. \<not> (Q x \<and> R x)"
  shows "length (filter P xs) + length (filter Q xs) + length (filter R xs)
         + length (filter (\<lambda>x. \<not> P x \<and> \<not> Q x \<and> \<not> R x) xs) = length xs"
  using assms by (induction xs) auto

lemma levels_total:
  "length (get_decisions_by_risk results (ascii ''HIGH''))
   + length (get_decisions_by_risk results (ascii ''MEDIUM''))
   + length (get_decisions_by_risk results (ascii ''LOW''))
   + length (filter (\<lambda>d. risk_level_of d \<noteq> Some (JStr (ascii ''HIGH'')) \<and>
                          risk_level_of d \<noteq> Some (JStr (ascii ''MEDIUM'')) \<and>
                          risk_level_of d \<noteq> Some (JStr (ascii ''LOW''))) results)
   = length results"
  unfolding get_decisions_by_risk_def by (rule count_levels) simp_all

lemma get_statistics_counts:
  "\<exists>d. get_statistics results = Inr d \<and>
     field d ''total'' = Some (JInt (int (length results))) \<and>
     field d ''high'' = Some (JInt (int (length (get_decisions_by_risk results (ascii ''HIGH''))))) \<and>
     field d ''medium'' =
       Some (JInt (int (length (get_decisions_by_risk results (ascii ''MEDIUM''))))) \<and>
     field d ''low'' = Some (JInt (int (length (get_decisions_by_risk results (ascii ''LOW'')))))"
proof (cases "results = []")
  case True
  then show ?thesis
    by (simp add: get_statistics_empty field_dict_of get_decisions_by_risk_def)
next
  case False
  then show ?thesis
    by (simp add: get_statistics_nonempty field_dict_of)
qed





lemmas stats_eval = get_decisions_by_risk_def risk_level_of_def test_store_def
  store_decision_def test_result_def dec_id_def split_beta Let_def


text \<open>
  C10. The counts of HIGH, MEDIUM and LOW records that \<open>get_statistics\<close> reports sum to
  at most the total it reports, and to less than the total when some record has another
  risk level, or none: such a record is counted in the total and in no level.
\<close>

theorem get_statistics_levels_below_total:
  "(\<exists>d. get_statistics results = Inr d \<and>
     field d ''total'' = Some (JInt (int (length results))) \<and>
     field d ''high'' = Some (JInt (int (length (get_decisions_by_risk results (ascii ''HIGH''))))) \<and>
     field d ''medium'' =
       Some (JInt (int (length (get_decisions_by_risk results (ascii ''MEDIUM''))))) \<and>
     field d ''low'' =
       Some (JInt (int (length (get_decisions_by_risk results (ascii ''LOW'')))))) \<and>
   length (get_decisions_by_risk results (ascii ''HIGH''))
     + length (get_decisions_by_risk results (ascii ''MEDIUM''))
     + length (get_decisions_by_risk results (ascii ''LOW'')) \<le> length results \<and>
   ((\<exists>r \<in> set results.
        risk_level_of r \<noteq> Some (JStr (ascii ''HIGH'')) \<and>
        risk_level_of r \<noteq> Some (JStr (ascii ''MEDIUM'')) \<and>
        risk_level_of r \<noteq> Some (JStr (ascii ''LOW''))) \<longrightarrow>
    length (get_decisions_by_risk results (ascii ''HIGH''))
      + length (get_decisions_by_risk results (ascii ''MEDIUM''))
      + length (get_decisions_by_risk results (ascii ''LOW'')) < length results)"
proof -
  let ?other = "\<lambda>d. risk_level_of d \<noteq> Some (JStr (ascii ''HIGH'')) \<and>
                    risk_level_of d \<noteq> Some (JStr (ascii ''MEDIUM'')) \<and>
                    risk_level_of d \<noteq> Some (JStr (ascii ''LOW''))"
  have pos: "0 < length (filter ?other results)" if "\<exists>r \<in> set results. ?other r"
    using that by (simp add: filter_empty_conv)
  have le: "length (get_decisions_by_risk results (ascii ''HIGH''))
      + length (get_decisions_by_risk results (ascii ''MEDIUM''))
      + length (get_decisions_by_risk results (ascii ''LOW'')) \<le> length results"
    using levels_total [of results] by linarith
  have lt: "length (get_decisions_by_risk results (ascii ''HIGH''))
      + length (get_decisions_by_risk results (ascii ''MEDIUM''))
      + length (get_decisions_by_risk results (ascii ''LOW'')) < length results"
    if "\<exists>r \<in> set results. ?other r"
    using levels_total [of results] pos [OF that] by linarith
  show ?thesis
    using get_statistics_counts [of results] le lt by blast
qed

theorem get_statistics_levels_below_total_witness:
  "risk_level_of (snd (history [test_store, error_store] []) ! 1) = Some (JStr (ascii ''ERROR'')) \<and>
   length (snd (history [test_store, error_store] [])) = 2 \<and>
   length (get_decisions_by_risk (snd (history [test_store, error_store] [])) (ascii ''HIGH''))
     + length (get_decisions_by_risk (snd (history [test_store, error_store] [])) (ascii ''MEDIUM''))
     + length (get_decisions_by_risk (snd (history [test_store, error_store] [])) (ascii ''LOW''))
     < length (snd (history [test_store, error_store] []))"
proof -
  let ?L = "snd (history [test_store, error_store] [])"
  have r: "risk_level_of (?L ! 1) = Some (JStr (ascii ''ERROR''))"
    by (simp add: stats_eval error_store_def)
  have l: "length ?L = 2"
    by (simp add: stats_eval error_store_def)
  have "?L ! 1 \<in> set ?L" using l by (simp del: history.simps)
  then have "\<exists>r \<in> set ?L.
        risk_level_of r \<noteq> Some (JStr (ascii ''HIGH'')) \<and>
        risk_level_of r \<noteq> Some (JStr (ascii ''MEDIUM'')) \<and>
        risk_level_of r \<noteq> Some (JStr (ascii ''LOW''))"
    using r by (intro bexI [of _ "?L ! 1"]) simp_all
  then show ?thesis
    using get_statistics_levels_below_total [of ?L] r l by blast
qed

section \<open>Parsing the response of the service\<close>

lemma bind_err_simps [simp]:
  "bind_err (Inr a) f = f a" "bind_err (Inl e) f = Inl e"
  by (simp_all add: bind_err_def)

lemma obj_ops [simp]:
  "contains (JObj m) k = Inr (m k \<noteq> None)"
  "setitem (JObj m) k v = Inr (JObj (m(k \<mapsto> v)))"
  "get_default (JObj m) k d = Inr (case m k of None \<Rightarrow> d | Some v \<Rightarrow> v)"
  by (simp_all add: contains_def setitem_def get_default_def)

lemma ensure_obj [simp]:
  "ensure (JObj m) k v = Inr (JObj (if m k = None then m(k \<mapsto> v) else m))"
  by (simp add: ensure_def)

lemma prob_map_get_HIGH: "prob_map_get (JStr (ascii ''HIGH'')) = Inr 70"
  by (simp add: prob_map_get_def prob_map_def)

lemma complete_fields_HIGH:
  assumes "m (ascii ''recovery_percentage'') = None"
    and "m (ascii ''recovery_probability'') = Some (JStr (ascii ''HIGH''))"
  shows "\<exists>m'. complete_fields tab (JObj m) = Inr (JObj m') \<and>
           m' (ascii ''recovery_percentage'') = Some (JInt 70) \<and>
           m' (ascii ''recovery_probability'') = Some (JStr (ascii ''HIGH''))"
  using assms
  by (simp add: complete_fields_def ensure_probability_def ensure_percentage_def
      prob_map_get_HIGH)

text \<open>
  C4. When the response decodes to a JSON object that has no \<open>recovery_percentage\<close>
  and has \<open>recovery_probability\<close> HIGH, the parsed result has
  \<open>recovery_percentage\<close> 70, and it is what \<open>classify_risk\<close> returns.
\<close>

theorem parse_response_percentage_from_HIGH:
  assumes "json_loads g (clean text) = Inr (JObj m)"
    and "m (ascii ''recovery_percentage'') = None"
    and "m (ascii ''recovery_probability'') = Some (JStr (ascii ''HIGH''))"
  shows "\<exists>r. parse_response g text = Inr r \<and>
           field r ''recovery_percentage'' = Some (JInt 70) \<and>
           field r ''recovery_probability'' = Some (JStr (ascii ''HIGH'')) \<and>
           (generate_content g (full_prompt g ctx) = Inr text \<longrightarrow>
              classify_risk g ctx = Inr r)"
proof -
  from complete_fields_HIGH [OF assms(2,3)]
  obtain m' where m': "complete_fields (upper_table g) (JObj m) = Inr (JObj m')"
    "m' (ascii ''recovery_percentage'') = Some (JInt 70)"
    "m' (ascii ''recovery_probability'') = Some (JStr (ascii ''HIGH''))"
    by blast
  have "parse_response g text = Inr (JObj m')"
    by (simp add: parse_response_def assms(1) m'(1))
  then show ?thesis
    using m'(2,3) by (simp add: field_def classify_risk_def)
qed

lemmas clean_eval = clean_def strip_def lstrip_def rstrip_def sub_prefix_def
  sub_fence_end_def ends_with_def fence_def nl_def is_space_def ascii_eval

lemma clean_fenced_text: "clean fenced_text = json_text"
  by (simp add: fenced_text_def json_text_def clean_eval)

lemma clean_prose_text: "clean prose_text = prose_text"
  by (simp add: prose_text_def clean_eval)

lemma clean_dotless_text: "clean dotless_text = dotless_text"
  by (simp add: dotless_text_def clean_eval)

theorem parse_response_percentage_from_HIGH_witness:
  "json_loads (sample_gemini utf8_stdout (Inr fenced_text)) (clean fenced_text)
     = Inr (JObj (map_of [(ascii ''recovery_probability'', JStr (ascii ''HIGH''))])) \<and>
   map_of [(ascii ''recovery_probability'', JStr (ascii ''HIGH''))]
     (ascii ''recovery_percentage'') = None \<and>
   (\<exists>r. classify_risk (sample_gemini utf8_stdout (Inr fenced_text)) [] = Inr r \<and>
      field r ''recovery_percentage'' = Some (JInt 70))"
proof -
  let ?g = "sample_gemini utf8_stdout (Inr fenced_text)"
  let ?m = "map_of [(ascii ''recovery_probability'', JStr (ascii ''HIGH''))]"
  have a: "json_loads ?g (clean fenced_text) = Inr (JObj ?m)"
    by (simp add: clean_fenced_text sample_gemini_def sample_loads_def)
  have b: "?m (ascii ''recovery_percentage'') = None"
    "?m (ascii ''recovery_probability'') = Some (JStr (ascii ''HIGH''))"
    by simp_all
  have c: "generate_content ?g (full_prompt ?g []) = Inr fenced_text"
    by (simp add: sample_gemini_def)
  show ?thesis
    using parse_response_percentage_from_HIGH [OF a b, of "[]"] a b c by auto
qed

lemma str_in_longer: "str_in (p @ q) s \<Longrightarrow> str_in p s"
proof -
  assume "str_in (p @ q) s"
  then obtain a b where "s = a @ (p @ q) @ b" using str_in_iff by blast
  then have "s = a @ p @ (q @ b)" by simp
  then show ?thesis using str_in_iff by blast
qed

lemma extract_risk_level_scan:
  "extract_risk_level tab text =
     (if str_in (ascii ''HIGH'') (upper tab text) then ascii ''HIGH''
      else if str_in (ascii ''MEDIUM'') (upper tab text) then ascii ''MEDIUM''
      else if str_in (ascii ''LOW'') (upper tab text) then ascii ''LOW''
      else ascii ''UNKNOWN'')"
proof -
  have "str_in (ascii ''HIGH RISK'') t \<Longrightarrow> str_in (ascii ''HIGH'') t"
    and "str_in (ascii ''MEDIUM RISK'') t \<Longrightarrow> str_in (ascii ''MEDIUM'') t"
    and "str_in (ascii ''LOW RISK'') t \<Longrightarrow> str_in (ascii ''LOW'') t" for t
    using str_in_longer [of "ascii ''HIGH''" "ascii '' RISK''" t]
      str_in_longer [of "ascii ''MEDIUM''" "ascii '' RISK''" t]
      str_in_longer [of "ascii ''LOW''" "ascii '' RISK''" t]
    by (simp_all add: ascii_append [symmetric])
  then show ?thesis
    unfolding extract_risk_level_def Let_def by auto
qed

lemma upper_prose:
  "upper tab (ascii ''The case looks HIGH risk overall.'')
     = ascii ''THE CASE LOOKS HIGH RISK OVERALL.''"
  by (simp add: upper_def upper_cp_def ascii_eval)

lemma extract_prose:
  "extract_risk_level tab (ascii ''The case looks HIGH risk overall.'') = ascii ''HIGH''"
  unfolding extract_risk_level_scan upper_prose by (simp add: ascii_eval)

text \<open>
  C5. When decoding the cleaned response fails, the parser returns the risk level found
  by scanning the upper-cased text for HIGH, then MEDIUM, then LOW, and UNKNOWN when none
  occurs, with confidence 0.7 and the first 200 characters of the response as reason.
  The text is upper-cased as \<open>str.upper\<close> does it, with the table of the interpreter
  for the code points outside ASCII. The response "The case looks HIGH risk overall."
  gives HIGH with confidence 0.7, whatever that table is.
\<close>

theorem parse_response_decode_failure:
  "(json_loads g (clean text) = Inl JSONDecodeError \<longrightarrow>
      (\<exists>r. parse_response g text = Inr r \<and>
         field r ''risk_level'' = Some (JStr
           (if str_in (ascii ''HIGH'') (upper (upper_table g) text) then ascii ''HIGH''
            else if str_in (ascii ''MEDIUM'') (upper (upper_table g) text) then ascii ''MEDIUM''
            else if str_in (ascii ''LOW'') (upper (upper_table g) text) then ascii ''LOW''
            else ascii ''UNKNOWN'')) \<and>
         field r ''confidence'' = Some (JFloat (7 / 10)) \<and>
         field r ''reason'' = Some (JStr (take 200 text)))) \<and>
   (json_loads g (clean (ascii ''The case looks HIGH risk overall.'')) = Inl JSONDecodeError \<longrightarrow>
      (\<exists>r. parse_response g (ascii ''The case looks HIGH risk overall.'') = Inr r \<and>
         field r ''risk_level'' = Some (JStr (ascii ''HIGH'')) \<and>
         field r ''confidence'' = Some (JFloat (7 / 10))))"
proof -
  have gen: "\<exists>r. parse_response g t = Inr r \<and>
         field r ''risk_level'' = Some (JStr (extract_risk_level (upper_table g) t)) \<and>
         field r ''confidence'' = Some (JFloat (7 / 10)) \<and>
         field r ''reason'' = Some (JStr (take 200 t))"
    if "json_loads g (clean t) = Inl JSONDecodeError" for t
    using that by (simp add: parse_response_def field_dict_of)
  show ?thesis
    using gen [of "text"] gen [of "ascii ''The case looks HIGH risk overall.''"]
    by (simp only: extract_prose) (simp only: extract_risk_level_scan, blast)
qed

lemma sample_texts_differ:
  "prose_text \<noteq> json_text" "prose_text \<noteq> bad_text" "bad_text \<noteq> json_text"
  "prose_text \<noteq> array_text" "prose_text \<noteq> number_text"
  "dotless_text \<noteq> json_text" "dotless_text \<noteq> bad_text"
  "dotless_text \<noteq> array_text" "dotless_text \<noteq> number_text"
  "array_text \<noteq> json_text" "array_text \<noteq> bad_text"
  "number_text \<noteq> json_text" "number_text \<noteq> bad_text" "number_text \<noteq> array_text"
  by (simp_all add: prose_text_def json_text_def bad_text_def array_text_def number_text_def
      dotless_text_def ascii_eval)

theorem parse_response_decode_failure_witness:
  "json_loads (sample_gemini utf8_stdout (Inr prose_text)) (clean prose_text)
     = Inl JSONDecodeError \<and>
   prose_text = ascii ''The case looks HIGH risk overall.'' \<and>
   (\<exists>r. parse_response (sample_gemini utf8_stdout (Inr prose_text)) prose_text = Inr r \<and>
      field r ''risk_level'' = Some (JStr (ascii ''HIGH'')) \<and>
      field r ''confidence'' = Some (JFloat (7 / 10)) \<and>
      field r ''reason'' = Some (JStr prose_text)) \<and>
   json_loads (sample_gemini utf8_stdout (Inr dotless_text)) (clean dotless_text)
     = Inl JSONDecodeError \<and>
   upper (upper_table (sample_gemini utf8_stdout (Inr dotless_text))) dotless_text
     = ascii ''HIGH'' \<and>
   (\<exists>r. parse_response (sample_gemini utf8_stdout (Inr dotless_text)) dotless_text = Inr r \<and>
      field r ''risk_level'' = Some (JStr (ascii ''HIGH'')))"
proof -
  let ?g = "sample_gemini utf8_stdout (Inr prose_text)"
  let ?h = "sample_gemini utf8_stdout (Inr dotless_text)"
  have a: "json_loads ?g (clean prose_text) = Inl JSONDecodeError"
    using sample_texts_differ by (simp add: clean_prose_text sample_gemini_def sample_loads_def)
  have t: "take 200 prose_text = prose_text"
    by (simp add: prose_text_def ascii_def)
  have u: "str_in (ascii ''HIGH'') (upper (upper_table ?g) prose_text)"
    unfolding prose_text_def upper_prose by (simp add: ascii_eval)
  have b: "json_loads ?h (clean dotless_text) = Inl JSONDecodeError"
    using sample_texts_differ
    by (simp add: clean_dotless_text sample_gemini_def sample_loads_def)
  have v: "upper (upper_table ?h) dotless_text = ascii ''HIGH''"
    by (simp add: sample_gemini_def sample_upper_table_def dotless_text_def upper_def
        upper_cp_def ascii_eval)
  have w: "str_in (ascii ''HIGH'') (ascii ''HIGH'')"
    using str_in_prefix [of "ascii ''HIGH''" "[]"] by simp
  have p: "\<exists>r. parse_response ?g prose_text = Inr r \<and>
      field r ''risk_level'' = Some (JStr (ascii ''HIGH'')) \<and>
      field r ''confidence'' = Some (JFloat (7 / 10)) \<and>
      field r ''reason'' = Some (JStr prose_text)"
    using parse_response_decode_failure [of ?g prose_text] a t u by auto
  have d: "\<exists>r. parse_response ?h dotless_text = Inr r \<and>
      field r ''risk_level'' = Some (JStr (ascii ''HIGH''))"
    using parse_response_decode_failure [of ?h dotless_text] b w unfolding v by auto
  show ?thesis
    using a b v p d by (simp add: prose_text_def)
qed

lemma api_error_fields:
  "field (api_error g e) ''risk_level'' = Some (JStr (ascii ''ERROR''))"
  "field (api_error g e) ''confidence'' = Some (JFloat 0)"
  "field (api_error g e) ''reason'' = Some (JStr (ascii ''API Error: '' @ exc_str g e))"
  "field (api_error g e) ''recommended_action'' = Some (JStr (ascii ''Manual review required''))"
  "field (api_error g e) ''recovery_probability'' = None"
  "field (api_error g e) ''recovery_percentage'' = None"
  by (simp_all add: api_error_def field_dict_of)

lemma classify_risk_raised:
  "generate_content g (full_prompt g ctx) = Inl e \<Longrightarrow> classify_risk g ctx = handle_error g e"
  "generate_content g (full_prompt g ctx) = Inr text \<Longrightarrow> parse_response g text = Inl e \<Longrightarrow>
     classify_risk g ctx = handle_error g e"
  "generate_content g (full_prompt g ctx) = Inr text \<Longrightarrow> parse_response g text = Inr r \<Longrightarrow>
     classify_risk g ctx = Inr r"
  by (simp_all add: classify_risk_def)

lemma handle_error_cases:
  "stdout g (error_line g e) = None \<Longrightarrow> handle_error g e = Inr (api_error g e)"
  "stdout g (error_line g e) = Some raised \<Longrightarrow> handle_error g e = Inl raised"
  by (simp_all add: handle_error_def)

text \<open>
  C6, as the code has it. When the call of the service raises, or the parsing of its
  response raises, the handler prints a line; when that print completes,
  \<open>classify_risk\<close> does not raise and returns the sentinel: risk level ERROR,
  confidence 0.0, "Manual review required", and as reason the text "API Error: "
  followed by the message of the exception.
\<close>

theorem classify_risk_failure_sentinel:
  "(generate_content g (full_prompt g ctx) = Inl e \<and> stdout g (error_line g e) = None \<longrightarrow>
      classify_risk g ctx = Inr (api_error g e)) \<and>
   (generate_content g (full_prompt g ctx) = Inr text \<and> parse_response g text = Inl e \<and>
    stdout g (error_line g e) = None \<longrightarrow>
      classify_risk g ctx = Inr (api_error g e)) \<and>
   field (api_error g e) ''risk_level'' = Some (JStr (ascii ''ERROR'')) \<and>
   field (api_error g e) ''confidence'' = Some (JFloat 0) \<and>
   field (api_error g e) ''reason'' = Some (JStr (ascii ''API Error: '' @ exc_str g e)) \<and>
   field (api_error g e) ''recommended_action'' = Some (JStr (ascii ''Manual review required''))"
  by (simp add: classify_risk_raised handle_error_cases api_error_fields)

lemma sample_gemini_simps:
  "generate_content (sample_gemini out r) p = r"
  "stdout (sample_gemini out r) = out"
  "exc_str (sample_gemini out r) = sample_exc_str"
  "upper_table (sample_gemini out r) = sample_upper_table"
  "json_loads (sample_gemini out r) = sample_loads"
  by (simp_all add: sample_gemini_def)

lemma error_line_503:
  "error_line (sample_gemini out r) (OtherError (ascii ''503 Service Unavailable''))
     = [226, 338] @ ascii '' Gemini API Error: 503 Service Unavailable''"
  by (simp add: error_line_def sample_gemini_simps sample_exc_str_def ascii_eval)

lemma stdout_503:
  "utf8_stdout ([226, 338] @ ascii '' Gemini API Error: 503 Service Unavailable'') = None"
  "ascii_stdout ([226, 338] @ ascii '' Gemini API Error: 503 Service Unavailable'')
     = Some (UnicodeEncodeError (ascii ''ascii codec: ordinal not in range(128)''))"
  by (simp_all add: utf8_stdout_def ascii_stdout_def ascii_eval)

theorem classify_risk_failure_sentinel_witness:
  "generate_content
     (sample_gemini utf8_stdout (Inl (OtherError (ascii ''503 Service Unavailable''))))
     (full_prompt
       (sample_gemini utf8_stdout (Inl (OtherError (ascii ''503 Service Unavailable'')))) [])
     = Inl (OtherError (ascii ''503 Service Unavailable'')) \<and>
   stdout (sample_gemini utf8_stdout (Inl (OtherError (ascii ''503 Service Unavailable''))))
     (error_line
       (sample_gemini utf8_stdout (Inl (OtherError (ascii ''503 Service Unavailable''))))
       (OtherError (ascii ''503 Service Unavailable''))) = None \<and>
   classify_risk
     (sample_gemini utf8_stdout (Inl (OtherError (ascii ''503 Service Unavailable'')))) []
     = Inr (api_error
         (sample_gemini utf8_stdout (Inl (OtherError (ascii ''503 Service Unavailable''))))
         (OtherError (ascii ''503 Service Unavailable''))) \<and>
   field (api_error
         (sample_gemini utf8_stdout (Inl (OtherError (ascii ''503 Service Unavailable''))))
         (OtherError (ascii ''503 Service Unavailable''))) ''reason''
     = Some (JStr (ascii ''API Error: 503 Service Unavailable''))"
proof -
  let ?e = "OtherError (ascii ''503 Service Unavailable'')"
  let ?g = "sample_gemini utf8_stdout (Inl ?e)"
  have a: "generate_content ?g (full_prompt ?g []) = Inl ?e"
    by (simp add: sample_gemini_simps)
  have s: "stdout ?g (error_line ?g ?e) = None"
    by (simp only: error_line_503 sample_gemini_simps stdout_503)
  have m: "exc_str ?g ?e = ascii ''503 Service Unavailable''"
    by (simp add: sample_gemini_simps sample_exc_str_def)
  have j: "ascii ''API Error: '' @ ascii ''503 Service Unavailable''
      = ascii ''API Error: 503 Service Unavailable''"
    by (simp add: ascii_eval)
  show ?thesis
    using classify_risk_failure_sentinel [of ?g "[]" ?e "[]"] a s m j by simp
qed

text \<open>
  The reason of the sentinel is not the message of the exception: the text
  "API Error: " stands before it. And on a standard output that encodes in ASCII the print
  of the handler raises, so that \<open>classify_risk\<close> raises to its caller.
\<close>

theorem classify_risk_failure_sentinel_counterexample:
  "classify_risk
     (sample_gemini utf8_stdout (Inl (OtherError (ascii ''503 Service Unavailable'')))) []
     = Inr (dict_of
        [(ascii ''risk_level'', JStr (ascii ''ERROR'')),
         (ascii ''confidence'', JFloat 0),
         (ascii ''reason'', JStr (ascii ''API Error: 503 Service Unavailable'')),
         (ascii ''recommended_action'', JStr (ascii ''Manual review required''))]) \<and>
   ascii ''API Error: 503 Service Unavailable'' \<noteq> ascii ''503 Service Unavailable'' \<and>
   classify_risk
     (sample_gemini ascii_stdout (Inl (OtherError (ascii ''503 Service Unavailable'')))) []
     = Inl (UnicodeEncodeError (ascii ''ascii codec: ordinal not in range(128)''))"
proof -
  let ?e = "OtherError (ascii ''503 Service Unavailable'')"
  have j: "ascii ''API Error: '' @ ascii ''503 Service Unavailable''
      = ascii ''API Error: 503 Service Unavailable''"
    by (simp add: ascii_eval)
  have a: "classify_risk (sample_gemini utf8_stdout (Inl ?e)) []
      = handle_error (sample_gemini utf8_stdout (Inl ?e)) ?e"
    and b: "classify_risk (sample_gemini ascii_stdout (Inl ?e)) []
      = handle_error (sample_gemini ascii_stdout (Inl ?e)) ?e"
    by (simp_all add: classify_risk_raised(1) sample_gemini_simps)
  have c: "handle_error (sample_gemini utf8_stdout (Inl ?e)) ?e
      = Inr (api_error (sample_gemini utf8_stdout (Inl ?e)) ?e)"
    by (rule handle_error_cases(1)) (simp only: error_line_503 sample_gemini_simps stdout_503)
  have d: "handle_error (sample_gemini ascii_stdout (Inl ?e)) ?e
      = Inl (UnicodeEncodeError (ascii ''ascii codec: ordinal not in range(128)''))"
    by (rule handle_error_cases(2)) (simp only: error_line_503 sample_gemini_simps stdout_503)
  have f: "api_error (sample_gemini utf8_stdout (Inl ?e)) ?e
      = dict_of
        [(ascii ''risk_level'', JStr (ascii ''ERROR'')),
         (ascii ''confidence'', JFloat 0),
         (ascii ''reason'', JStr (ascii ''API Error: 503 Service Unavailable'')),
         (ascii ''recommended_action'', JStr (ascii ''Manual review required''))]"
    by (simp add: api_error_def sample_gemini_simps sample_exc_str_def j)
  show ?thesis
    unfolding a b c d f by simp
qed

section \<open>Completion of the decoded response\<close>

lemma setdefault_apply:
  "setdefault m k v k' = (if k' = k \<and> m k = None then Some v else m k')"
  by (simp add: setdefault_def)

lemma ensure_setdefault: "ensure (JObj m) k v = Inr (JObj (setdefault m k v))"
  by (simp add: setdefault_def)

lemma ensure_probability_obj:
  "ensure_probability tab (JObj m) =
     (case m (ascii ''recovery_probability'') of
        Some v \<Rightarrow> Inr (JObj m)
      | None \<Rightarrow>
         (case m (ascii ''risk_level'') of
            None \<Rightarrow> Inr (JObj (m(ascii ''recovery_probability'' \<mapsto>
                      JStr (infer_probability (upper tab (ascii ''MEDIUM''))))))
          | Some (JStr s) \<Rightarrow> Inr (JObj (m(ascii ''recovery_probability'' \<mapsto>
                      JStr (infer_probability (upper tab s)))))
          | Some _ \<Rightarrow> Inl AttributeError))"
  by (simp add: ensure_probability_def upper_of_def split: option.splits json.splits)

lemma ensure_percentage_obj:
  "ensure_percentage (JObj m) =
     (case m (ascii ''recovery_percentage'') of
        Some v \<Rightarrow> Inr (JObj m)
      | None \<Rightarrow>
         (case prob_map_get (case m (ascii ''recovery_probability'') of
                               None \<Rightarrow> JStr (ascii ''MODERATE'') | Some q \<Rightarrow> q) of
            Inl e \<Rightarrow> Inl e
          | Inr p \<Rightarrow> Inr (JObj (m(ascii ''recovery_percentage'' \<mapsto> JInt p)))))"
  by (simp add: ensure_percentage_def bind_err_def split: option.splits sum.splits)

lemma setdefault_keep: "m k \<noteq> None \<Longrightarrow> setdefault m k' v k = m k"
  by (auto simp: setdefault_def)

lemma prob_map_get_hashable: "hashable v \<Longrightarrow> \<exists>p. prob_map_get v = Inr p"
  by (cases v) (simp_all add: hashable_def prob_map_get_def)

lemma prob_map_get_unhashable: "\<not> hashable v \<Longrightarrow> prob_map_get v = Inl TypeError"
  by (cases v) (simp_all add: hashable_def prob_map_get_def)

lemma complete_fields_steps:
  "complete_fields tab (JObj m)
     = bind_err (ensure_probability tab (JObj (with_defaults m))) ensure_percentage"
  by (simp add: complete_fields_def ensure_setdefault with_defaults_def del: ensure_obj)

lemma with_defaults_keep: "m k \<noteq> None \<Longrightarrow> with_defaults m k = m k"
  by (simp add: with_defaults_def setdefault_keep)

lemma with_defaults_other:
  "with_defaults m (ascii ''recovery_probability'') = m (ascii ''recovery_probability'')"
  "with_defaults m (ascii ''recovery_percentage'') = m (ascii ''recovery_percentage'')"
  by (simp_all add: with_defaults_def setdefault_apply)

lemma with_defaults_fields:
  "with_defaults m (ascii ''risk_level'') =
     (case m (ascii ''risk_level'') of None \<Rightarrow> Some (JStr (ascii ''Unknown'')) | Some v \<Rightarrow> Some v)"
  "with_defaults m (ascii ''confidence'') =
     (case m (ascii ''confidence'') of None \<Rightarrow> Some (JFloat (8 / 10)) | Some v \<Rightarrow> Some v)"
  "with_defaults m (ascii ''reason'') =
     (case m (ascii ''reason'') of
        None \<Rightarrow> Some (JStr (ascii ''No explanation provided'')) | Some v \<Rightarrow> Some v)"
  "with_defaults m (ascii ''recommended_action'') =
     (case m (ascii ''recommended_action'') of
        None \<Rightarrow> Some (JStr (ascii ''Follow standard recovery procedure'')) | Some v \<Rightarrow> Some v)"
  by (simp_all add: with_defaults_def setdefault_apply split: option.splits)

lemma probability_step:
  assumes "completes m"
  shows "\<exists>m5. ensure_probability tab (JObj (with_defaults m)) = Inr (JObj m5) \<and>
      (\<forall>k. k \<noteq> ascii ''recovery_probability'' \<longrightarrow> m5 k = with_defaults m k) \<and>
      (m (ascii ''recovery_probability'') \<noteq> None \<longrightarrow> m5 = with_defaults m) \<and>
      (m (ascii ''recovery_probability'') = None \<longrightarrow>
         (\<exists>s. with_defaults m (ascii ''risk_level'') = Some (JStr s) \<and>
              m5 (ascii ''recovery_probability'') = Some (JStr (infer_probability (upper tab s)))))"
proof (cases "m (ascii ''recovery_probability'')")
  case (Some q)
  then show ?thesis by (simp add: ensure_probability_obj with_defaults_other)
next
  case None
  then have "case m (ascii ''risk_level'') of None \<Rightarrow> True | Some v \<Rightarrow> is_str v"
    using assms by (simp add: completes_def)
  then obtain s where s: "with_defaults m (ascii ''risk_level'') = Some (JStr s)"
    unfolding with_defaults_fields by (auto simp: is_str_def split: option.splits json.splits)
  show ?thesis
    using None s by (simp add: ensure_probability_obj with_defaults_other)
qed

lemma percentage_step:
  assumes "m5 (ascii ''recovery_percentage'') = None \<longrightarrow>
      (\<exists>q. m5 (ascii ''recovery_probability'') = Some q \<and> hashable q)"
  shows "\<exists>m'. ensure_percentage (JObj m5) = Inr (JObj m') \<and>
      (\<forall>k. k \<noteq> ascii ''recovery_percentage'' \<longrightarrow> m' k = m5 k) \<and>
      m' (ascii ''recovery_percentage'') \<noteq> None \<and>
      (m5 (ascii ''recovery_percentage'') \<noteq> None \<longrightarrow> m' = m5) \<and>
      (m5 (ascii ''recovery_percentage'') = None \<longrightarrow>
        (\<exists>q p. m5 (ascii ''recovery_probability'') = Some q \<and> prob_map_get q = Inr p \<and>
             m' (ascii ''recovery_percentage'') = Some (JInt p)))"
proof (cases "m5 (ascii ''recovery_percentage'')")
  case (Some v)
  then show ?thesis by (simp add: ensure_percentage_obj)
next
  case None
  with assms obtain q where q: "m5 (ascii ''recovery_probability'') = Some q" "hashable q"
    by blast
  then obtain p where p: "prob_map_get q = Inr p" using prob_map_get_hashable by blast
  show ?thesis
    using None q p by (simp add: ensure_percentage_obj)
qed

lemma complete_fields_raises:
  assumes "\<not> completes m"
  shows "complete_fields tab (JObj m) = Inl AttributeError \<or> complete_fields tab (JObj m) = Inl TypeError"
proof (cases "m (ascii ''recovery_probability'') = None \<and>
      (\<exists>v. m (ascii ''risk_level'') = Some v \<and> \<not> is_str v)")
  case True
  then obtain v where v: "m (ascii ''risk_level'') = Some v" "\<not> is_str v" by blast
  have "with_defaults m (ascii ''risk_level'') = Some v"
    using v(1) by (simp add: with_defaults_fields)
  then have "ensure_probability tab (JObj (with_defaults m)) = Inl AttributeError"
    using True v(2)
    by (cases v) (simp_all add: ensure_probability_obj with_defaults_other is_str_def)
  then show ?thesis by (simp add: complete_fields_steps)
next
  case False
  with assms obtain q where q: "m (ascii ''recovery_percentage'') = None"
    "m (ascii ''recovery_probability'') = Some q" "\<not> hashable q"
    by (auto simp: completes_def split: option.splits)
  have "ensure_probability tab (JObj (with_defaults m)) = Inr (JObj (with_defaults m))"
    using q(2) by (simp add: ensure_probability_obj with_defaults_other)
  moreover have "ensure_percentage (JObj (with_defaults m)) = Inl TypeError"
    using q prob_map_get_unhashable [OF q(3)]
    by (simp add: ensure_percentage_obj with_defaults_other)
  ultimately show ?thesis by (simp add: complete_fields_steps)
qed

lemma complete_fields_ok:
  assumes "completes m"
  shows "\<exists>m'. complete_fields tab (JObj m) = Inr (JObj m') \<and>
     (\<forall>k. m k \<noteq> None \<longrightarrow> m' k = m k) \<and>
     m' (ascii ''risk_level'') \<noteq> None \<and> m' (ascii ''confidence'') \<noteq> None \<and>
     m' (ascii ''reason'') \<noteq> None \<and> m' (ascii ''recommended_action'') \<noteq> None \<and>
     m' (ascii ''recovery_probability'') \<noteq> None \<and>
     m' (ascii ''recovery_percentage'') \<noteq> None \<and>
     (m (ascii ''risk_level'') = None \<longrightarrow>
        m' (ascii ''risk_level'') = Some (JStr (ascii ''Unknown''))) \<and>
     (m (ascii ''confidence'') = None \<longrightarrow> m' (ascii ''confidence'') = Some (JFloat (8 / 10))) \<and>
     (m (ascii ''recommended_action'') = None \<longrightarrow>
        m' (ascii ''recommended_action'')
          = Some (JStr (ascii ''Follow standard recovery procedure''))) \<and>
     (m (ascii ''recovery_probability'') = None \<longrightarrow>
        (\<exists>s. m' (ascii ''risk_level'') = Some (JStr s) \<and>
             m' (ascii ''recovery_probability'') = Some (JStr (infer_probability (upper tab s))))) \<and>
     (m (ascii ''recovery_percentage'') = None \<longrightarrow>
        (\<exists>q p. m' (ascii ''recovery_probability'') = Some q \<and> prob_map_get q = Inr p \<and>
             m' (ascii ''recovery_percentage'') = Some (JInt p)))"
proof -
  let ?m4 = "with_defaults m"
  from probability_step [OF assms, of tab]
  obtain m5 where e5: "ensure_probability tab (JObj ?m4) = Inr (JObj m5)"
    and keep5: "\<And>k. k \<noteq> ascii ''recovery_probability'' \<Longrightarrow> m5 k = ?m4 k"
    and same5: "m (ascii ''recovery_probability'') \<noteq> None \<Longrightarrow> m5 = ?m4"
    and new5: "m (ascii ''recovery_probability'') = None \<Longrightarrow>
         \<exists>s. ?m4 (ascii ''risk_level'') = Some (JStr s) \<and>
              m5 (ascii ''recovery_probability'') = Some (JStr (infer_probability (upper tab s)))"
    by (elim exE conjE) simp
  have pct5: "m5 (ascii ''recovery_percentage'') = m (ascii ''recovery_percentage'')"
    using keep5 [of "ascii ''recovery_percentage''"] by (simp add: with_defaults_other)
  have rp5: "\<exists>q. m5 (ascii ''recovery_probability'') = Some q \<and>
      (m (ascii ''recovery_percentage'') = None \<longrightarrow> hashable q)"
  proof (cases "m (ascii ''recovery_probability'')")
    case None
    then obtain s where "m5 (ascii ''recovery_probability'')
        = Some (JStr (infer_probability (upper tab s)))"
      using new5 by blast
    then show ?thesis by (simp add: hashable_def)
  next
    case (Some q)
    then have "m5 (ascii ''recovery_probability'') = Some q"
      using same5 by (simp add: with_defaults_other)
    moreover have "hashable q" if "m (ascii ''recovery_percentage'') = None"
      using assms that Some by (simp add: completes_def)
    ultimately show ?thesis by simp
  qed
  have pre6: "m5 (ascii ''recovery_percentage'') = None \<longrightarrow>
      (\<exists>q. m5 (ascii ''recovery_probability'') = Some q \<and> hashable q)"
    using rp5 unfolding pct5 by blast
  from percentage_step [OF pre6]
  obtain m' where e6: "ensure_percentage (JObj m5) = Inr (JObj m')"
    and keep6: "\<And>k. k \<noteq> ascii ''recovery_percentage'' \<Longrightarrow> m' k = m5 k"
    and has6: "m' (ascii ''recovery_percentage'') \<noteq> None"
    and same6: "m5 (ascii ''recovery_percentage'') \<noteq> None \<Longrightarrow> m' = m5"
    and new6: "m5 (ascii ''recovery_percentage'') = None \<Longrightarrow>
        \<exists>q p. m5 (ascii ''recovery_probability'') = Some q \<and> prob_map_get q = Inr p \<and>
             m' (ascii ''recovery_percentage'') = Some (JInt p)"
    by (elim exE conjE) simp
  have res: "complete_fields tab (JObj m) = Inr (JObj m')"
    by (simp add: complete_fields_steps e5 e6)
  have k6: "m' (ascii ''risk_level'') = ?m4 (ascii ''risk_level'')"
    "m' (ascii ''confidence'') = ?m4 (ascii ''confidence'')"
    "m' (ascii ''reason'') = ?m4 (ascii ''reason'')"
    "m' (ascii ''recommended_action'') = ?m4 (ascii ''recommended_action'')"
    "m' (ascii ''recovery_probability'') = m5 (ascii ''recovery_probability'')"
    by (simp_all add: keep6 keep5)
  have keep: "m' k = m k" if "m k \<noteq> None" for k
  proof -
    have a: "m5 k = m k"
    proof (cases "k = ascii ''recovery_probability''")
      case True
      then show ?thesis using that same5 by (simp add: with_defaults_other)
    next
      case False
      then show ?thesis using keep5 that by (simp add: with_defaults_keep)
    qed
    show ?thesis
    proof (cases "k = ascii ''recovery_percentage''")
      case True
      then show ?thesis using that same6 a pct5 by simp
    next
      case False
      then show ?thesis using keep6 a by simp
    qed
  qed
  have p1: "m' (ascii ''risk_level'') \<noteq> None" "m' (ascii ''confidence'') \<noteq> None"
    "m' (ascii ''reason'') \<noteq> None" "m' (ascii ''recommended_action'') \<noteq> None"
    by (simp_all add: k6 with_defaults_fields split: option.splits)
  have p1b: "m' (ascii ''recovery_probability'') \<noteq> None"
    using rp5 by (auto simp: k6)
  have p2: "m (ascii ''risk_level'') = None \<longrightarrow>
        m' (ascii ''risk_level'') = Some (JStr (ascii ''Unknown''))"
    "m (ascii ''confidence'') = None \<longrightarrow> m' (ascii ''confidence'') = Some (JFloat (8 / 10))"
    "m (ascii ''recommended_action'') = None \<longrightarrow>
        m' (ascii ''recommended_action'')
          = Some (JStr (ascii ''Follow standard recovery procedure''))"
    by (simp_all add: k6 with_defaults_fields)
  have p3: "m (ascii ''recovery_probability'') = None \<longrightarrow>
        (\<exists>s. m' (ascii ''risk_level'') = Some (JStr s) \<and>
             m' (ascii ''recovery_probability'') = Some (JStr (infer_probability (upper tab s))))"
    using new5 by (simp add: k6)
  have p4: "m (ascii ''recovery_percentage'') = None \<longrightarrow>
        (\<exists>q p. m' (ascii ''recovery_probability'') = Some q \<and> prob_map_get q = Inr p \<and>
             m' (ascii ''recovery_percentage'') = Some (JInt p))"
    using new6 by (simp add: k6 pct5)
  have kp: "\<forall>k. m k \<noteq> None \<longrightarrow> m' k = m k"
    using keep by blast
  show ?thesis
    by (rule exI [of _ m']) (intro conjI res kp p1 p1b has6 p2 p3 p4)
qed


lemma complete_fields_named: "names_all v \<Longrightarrow> complete_fields tab v = Inr v"
  by (cases v)
     (simp_all add: names_all_def six_keys_def complete_fields_def ensure_def contains_def
       ensure_probability_def ensure_percentage_def)

lemma complete_fields_unnamed:
  assumes "\<not> is_obj v" and "\<not> names_all v"
  shows "complete_fields tab v = Inl TypeError \<or> complete_fields tab v = Inl AttributeError"
  using assms
  by (cases v)
     (auto simp: names_all_def six_keys_def is_obj_def complete_fields_def ensure_def
       contains_def setitem_def get_default_def ensure_probability_def ensure_percentage_def)

section \<open>The fields of a classification result\<close>

lemma decode_failure_fields:
  assumes "json_loads g (clean t) = Inl JSONDecodeError"
  shows "\<exists>r. parse_response g t = Inr r \<and>
    field r ''risk_level'' \<noteq> None \<and> field r ''confidence'' \<noteq> None \<and>
    field r ''reason'' \<noteq> None \<and> field r ''recommended_action'' \<noteq> None \<and>
    field r ''recovery_probability'' = None \<and> field r ''recovery_percentage'' = None"
  using assms by (simp add: parse_response_def field_dict_of)

lemma parse_response_value:
  "json_loads g (clean t) = Inr v \<Longrightarrow> complete_fields (upper_table g) v = Inr r \<Longrightarrow>
   parse_response g t = Inr r"
  "json_loads g (clean t) = Inr v \<Longrightarrow> complete_fields (upper_table g) v = Inl AttributeError \<Longrightarrow>
   parse_response g t = Inl AttributeError"
  "json_loads g (clean t) = Inr v \<Longrightarrow> complete_fields (upper_table g) v = Inl TypeError \<Longrightarrow>
   parse_response g t = Inl TypeError"
  by (simp_all add: parse_response_def)

lemma parse_response_decoder_error:
  "json_loads g (clean t) = Inl e \<Longrightarrow> e \<noteq> JSONDecodeError \<Longrightarrow> parse_response g t = Inl e"
  by (cases e) (simp_all add: parse_response_def)

lemma prob_map_table:
  "prob_map_get (JStr (ascii ''VERY HIGH'')) = Inr 85"
  "prob_map_get (JStr (ascii ''HIGH'')) = Inr 70"
  "prob_map_get (JStr (ascii ''MODERATE'')) = Inr 50"
  "prob_map_get (JStr (ascii ''LOW'')) = Inr 30"
  "prob_map_get (JStr (ascii ''VERY LOW'')) = Inr 15"
  "s \<notin> {ascii ''VERY HIGH'', ascii ''HIGH'', ascii ''MODERATE'', ascii ''LOW'', ascii ''VERY LOW''}
     \<longrightarrow> prob_map_get (JStr s) = Inr 50"
  by (simp_all add: prob_map_get_def prob_map_def)

lemma infer_probability_table:
  "infer_probability (ascii ''LOW'') = ascii ''HIGH''"
  "infer_probability (ascii ''MEDIUM'') = ascii ''MODERATE''"
  "s \<noteq> ascii ''LOW'' \<and> s \<noteq> ascii ''MEDIUM'' \<longrightarrow> infer_probability s = ascii ''LOW''"
  by (simp_all add: infer_probability_def)

text \<open>
  C3, as the code has it. The result of \<open>classify_risk\<close> has all six fields when the
  response decodes to a JSON object and the completion of that object runs through: the
  fields of the response are kept and the missing ones filled in (risk_level Unknown,
  confidence 0.8, the generic action, the probability inferred from the upper-cased risk
  level, the percentage looked up from the probability, 50 when it is not in the table).
  For a response that does not decode the result has risk_level, confidence, reason and
  recommended_action only. When the call of the service raises, or the parsing raises,
  and the print of the handler completes, the result is the sentinel, which has those
  four fields only. The parsing raises for an object whose completion raises, for a
  decoded value that is no object and does not name all six keys (a number, a boolean,
  null, most lists and strings), and for an error of the decoder other than a decode
  failure.
\<close>

theorem classify_risk_fields:
  "(generate_content g (full_prompt g ctx) = Inr resp \<and>
    json_loads g (clean resp) = Inr (JObj m) \<and> completes m
    \<longrightarrow>
      (\<exists>m'. classify_risk g ctx = Inr (JObj m') \<and>
         (\<forall>k. m k \<noteq> None \<longrightarrow> m' k = m k) \<and>
         m' (ascii ''risk_level'') \<noteq> None \<and> m' (ascii ''confidence'') \<noteq> None \<and>
         m' (ascii ''reason'') \<noteq> None \<and> m' (ascii ''recommended_action'') \<noteq> None \<and>
         m' (ascii ''recovery_probability'') \<noteq> None \<and>
         m' (ascii ''recovery_percentage'') \<noteq> None \<and>
         (m (ascii ''risk_level'') = None \<longrightarrow>
            m' (ascii ''risk_level'') = Some (JStr (ascii ''Unknown''))) \<and>
         (m (ascii ''confidence'') = None \<longrightarrow>
            m' (ascii ''confidence'') = Some (JFloat (8 / 10))) \<and>
         (m (ascii ''recommended_action'') = None \<longrightarrow>
            m' (ascii ''recommended_action'')
              = Some (JStr (ascii ''Follow standard recovery procedure''))) \<and>
         (m (ascii ''recovery_probability'') = None \<longrightarrow>
            (\<exists>s. m' (ascii ''risk_level'') = Some (JStr s) \<and>
                 m' (ascii ''recovery_probability'')
                   = Some (JStr (infer_probability (upper (upper_table g) s))))) \<and>
         (m (ascii ''recovery_percentage'') = None \<longrightarrow>
            (\<exists>q p. m' (ascii ''recovery_probability'') = Some q \<and> prob_map_get q = Inr p \<and>
                 m' (ascii ''recovery_percentage'') = Some (JInt p))))) \<and>
   (generate_content g (full_prompt g ctx) = Inr resp \<and>
    json_loads g (clean resp) = Inl JSONDecodeError
    \<longrightarrow>
      (\<exists>r. classify_risk g ctx = Inr r \<and>
         field r ''risk_level'' \<noteq> None \<and> field r ''confidence'' \<noteq> None \<and>
         field r ''reason'' \<noteq> None \<and> field r ''recommended_action'' \<noteq> None \<and>
         field r ''recovery_probability'' = None \<and> field r ''recovery_percentage'' = None)) \<and>
   ((generate_content g (full_prompt g ctx) = Inl e \<or>
     (generate_content g (full_prompt g ctx) = Inr resp \<and> parse_response g resp = Inl e)) \<and>
    stdout g (error_line g e) = None
    \<longrightarrow> classify_risk g ctx = Inr (api_error g e)) \<and>
   field (api_error g e) ''risk_level'' \<noteq> None \<and>
   field (api_error g e) ''confidence'' \<noteq> None \<and>
   field (api_error g e) ''reason'' \<noteq> None \<and>
   field (api_error g e) ''recommended_action'' \<noteq> None \<and>
   field (api_error g e) ''recovery_probability'' = None \<and>
   field (api_error g e) ''recovery_percentage'' = None \<and>
   (json_loads g (clean resp) = Inr (JObj m) \<and> \<not> completes m \<longrightarrow>
      parse_response g resp = Inl AttributeError \<or> parse_response g resp = Inl TypeError) \<and>
   (json_loads g (clean resp) = Inr v \<and> \<not> is_obj v \<and> \<not> names_all v \<longrightarrow>
      parse_response g resp = Inl TypeError \<or> parse_response g resp = Inl AttributeError) \<and>
   (json_loads g (clean resp) = Inl e \<and> e \<noteq> JSONDecodeError \<longrightarrow>
      parse_response g resp = Inl e) \<and>
   infer_probability (ascii ''LOW'') = ascii ''HIGH'' \<and>
   infer_probability (ascii ''MEDIUM'') = ascii ''MODERATE'' \<and>
   (s \<noteq> ascii ''LOW'' \<and> s \<noteq> ascii ''MEDIUM'' \<longrightarrow> infer_probability s = ascii ''LOW'') \<and>
   prob_map_get (JStr (ascii ''VERY HIGH'')) = Inr 85 \<and>
   prob_map_get (JStr (ascii ''HIGH'')) = Inr 70 \<and>
   prob_map_get (JStr (ascii ''MODERATE'')) = Inr 50 \<and>
   prob_map_get (JStr (ascii ''LOW'')) = Inr 30 \<and>
   prob_map_get (JStr (ascii ''VERY LOW'')) = Inr 15 \<and>
   (s \<notin> {ascii ''VERY HIGH'', ascii ''HIGH'', ascii ''MODERATE'', ascii ''LOW'',
          ascii ''VERY LOW''} \<longrightarrow> prob_map_get (JStr s) = Inr 50)"
proof -
  have good: "generate_content g (full_prompt g ctx) = Inr resp \<and>
    json_loads g (clean resp) = Inr (JObj m) \<and> completes m
    \<longrightarrow>
      (\<exists>m'. classify_risk g ctx = Inr (JObj m') \<and>
         (\<forall>k. m k \<noteq> None \<longrightarrow> m' k = m k) \<and>
         m' (ascii ''risk_level'') \<noteq> None \<and> m' (ascii ''confidence'') \<noteq> None \<and>
         m' (ascii ''reason'') \<noteq> None \<and> m' (ascii ''recommended_action'') \<noteq> None \<and>
         m' (ascii ''recovery_probability'') \<noteq> None \<and>
         m' (ascii ''recovery_percentage'') \<noteq> None \<and>
         (m (ascii ''risk_level'') = None \<longrightarrow>
            m' (ascii ''risk_level'') = Some (JStr (ascii ''Unknown''))) \<and>
         (m (ascii ''confidence'') = None \<longrightarrow>
            m' (ascii ''confidence'') = Some (JFloat (8 / 10))) \<and>
         (m (ascii ''recommended_action'') = None \<longrightarrow>
            m' (ascii ''recommended_action'')
              = Some (JStr (ascii ''Follow standard recovery procedure''))) \<and>
         (m (ascii ''recovery_probability'') = None \<longrightarrow>
            (\<exists>s. m' (ascii ''risk_level'') = Some (JStr s) \<and>
                 m' (ascii ''recovery_probability'')
                   = Some (JStr (infer_probability (upper (upper_table g) s))))) \<and>
         (m (ascii ''recovery_percentage'') = None \<longrightarrow>
            (\<exists>q p. m' (ascii ''recovery_probability'') = Some q \<and> prob_map_get q = Inr p \<and>
                 m' (ascii ''recovery_percentage'') = Some (JInt p))))"
  proof (intro impI, elim conjE)
    assume a: "generate_content g (full_prompt g ctx) = Inr resp"
      and b: "json_loads g (clean resp) = Inr (JObj m)" and c: "completes m"
    from complete_fields_ok [OF c, of "upper_table g"] obtain m'
      where m': "complete_fields (upper_table g) (JObj m) = Inr (JObj m')" by blast
    have "parse_response g resp = Inr (JObj m')"
      by (rule parse_response_value(1) [OF b m'])
    then have r: "classify_risk g ctx = Inr (JObj m')"
      by (rule classify_risk_raised(3) [OF a])
    show "\<exists>m'. classify_risk g ctx = Inr (JObj m') \<and>
         (\<forall>k. m k \<noteq> None \<longrightarrow> m' k = m k) \<and>
         m' (ascii ''risk_level'') \<noteq> None \<and> m' (ascii ''confidence'') \<noteq> None \<and>
         m' (ascii ''reason'') \<noteq> None \<and> m' (ascii ''recommended_action'') \<noteq> None \<and>
         m' (ascii ''recovery_probability'') \<noteq> None \<and>
         m' (ascii ''recovery_percentage'') \<noteq> None \<and>
         (m (ascii ''risk_level'') = None \<longrightarrow>
            m' (ascii ''risk_level'') = Some (JStr (ascii ''Unknown''))) \<and>
         (m (ascii ''confidence'') = None \<longrightarrow>
            m' (ascii ''confidence'') = Some (JFloat (8 / 10))) \<and>
         (m (ascii ''recommended_action'') = None \<longrightarrow>
            m' (ascii ''recommended_action'')
              = Some (JStr (ascii ''Follow standard recovery procedure''))) \<and>
         (m (ascii ''recovery_probability'') = None \<longrightarrow>
            (\<exists>s. m' (ascii ''risk_level'') = Some (JStr s) \<and>
                 m' (ascii ''recovery_probability'')
                   = Some (JStr (infer_probability (upper (upper_table g) s))))) \<and>
         (m (ascii ''recovery_percentage'') = None \<longrightarrow>
            (\<exists>q p. m' (ascii ''recovery_probability'') = Some q \<and> prob_map_get q = Inr p \<and>
                 m' (ascii ''recovery_percentage'') = Some (JInt p)))"
      unfolding r using complete_fields_ok [OF c, of "upper_table g"] m' by simp
  qed
  have prose: "generate_content g (full_prompt g ctx) = Inr resp \<and>
    json_loads g (clean resp) = Inl JSONDecodeError
    \<longrightarrow>
      (\<exists>r. classify_risk g ctx = Inr r \<and>
         field r ''risk_level'' \<noteq> None \<and> field r ''confidence'' \<noteq> None \<and>
         field r ''reason'' \<noteq> None \<and> field r ''recommended_action'' \<noteq> None \<and>
         field r ''recovery_probability'' = None \<and> field r ''recovery_percentage'' = None)"
    using decode_failure_fields [of g resp] classify_risk_raised(3) [of g ctx resp]
    by (auto simp del: not_None_eq)
  have sentinel: "(generate_content g (full_prompt g ctx) = Inl e \<or>
     (generate_content g (full_prompt g ctx) = Inr resp \<and> parse_response g resp = Inl e)) \<and>
    stdout g (error_line g e) = None
    \<longrightarrow> classify_risk g ctx = Inr (api_error g e)"
    using classify_risk_raised(1) [of g ctx e] classify_risk_raised(2) [of g ctx resp e]
      handle_error_cases(1) [of g e]
    by auto
  have four: "field (api_error g e) ''risk_level'' \<noteq> None"
    "field (api_error g e) ''confidence'' \<noteq> None"
    "field (api_error g e) ''reason'' \<noteq> None"
    "field (api_error g e) ''recommended_action'' \<noteq> None"
    by (simp_all add: api_error_fields)
  have bad: "json_loads g (clean resp) = Inr (JObj m) \<and> \<not> completes m \<longrightarrow>
      parse_response g resp = Inl AttributeError \<or> parse_response g resp = Inl TypeError"
    using complete_fields_raises [of m "upper_table g"]
      parse_response_value(2,3) [of g resp "JObj m"]
    by blast
  have other: "json_loads g (clean resp) = Inr v \<and> \<not> is_obj v \<and> \<not> names_all v \<longrightarrow>
      parse_response g resp = Inl TypeError \<or> parse_response g resp = Inl AttributeError"
    using complete_fields_unnamed [of v "upper_table g"] parse_response_value(2,3) [of g resp v]
    by blast
  have decoder: "json_loads g (clean resp) = Inl e \<and> e \<noteq> JSONDecodeError \<longrightarrow>
      parse_response g resp = Inl e"
    using parse_response_decoder_error [of g resp e] by blast
  show ?thesis
    by (intro conjI good prose sentinel four api_error_fields(5,6) bad other decoder
        infer_probability_table prob_map_table)
qed

lemma clean_bad_text: "clean bad_text = bad_text"
  by (simp add: bad_text_def clean_eval)

lemma clean_number_text: "clean number_text = number_text"
  by (simp add: number_text_def clean_eval)

lemma clean_array_text: "clean array_text = array_text"
  by (simp add: array_text_def clean_eval)

lemma sample_gemini_loads:
  "json_loads (sample_gemini out r) (clean prose_text) = Inl JSONDecodeError"
  "json_loads (sample_gemini out r) (clean fenced_text)
     = Inr (JObj (map_of [(ascii ''recovery_probability'', JStr (ascii ''HIGH''))]))"
  "json_loads (sample_gemini out r) (clean bad_text)
     = Inr (JObj (map_of [(ascii ''risk_level'', JInt 3)]))"
  "json_loads (sample_gemini out r) (clean array_text) = Inr (JArr (map JStr six_keys))"
  "json_loads (sample_gemini out r) (clean number_text) = Inr (JInt 3)"
  using sample_texts_differ
  by (simp_all add: clean_prose_text clean_fenced_text clean_bad_text clean_array_text
      clean_number_text sample_gemini_simps sample_loads_def)

lemma sample_completes:
  "completes (map_of [(ascii ''recovery_probability'', JStr (ascii ''HIGH''))])"
  "\<not> completes (map_of [(ascii ''risk_level'', JInt 3)])"
  by (simp_all add: completes_def hashable_def is_str_def)

lemma sample_values:
  "names_all (JArr (map JStr six_keys))"
  "\<not> is_obj (JInt 3)" "\<not> names_all (JInt 3)"
  by (simp_all add: names_all_def six_keys_def is_obj_def)

lemma sample_parse_raises:
  "parse_response (sample_gemini out r) bad_text = Inl AttributeError"
  "parse_response (sample_gemini out r) number_text = Inl TypeError"
proof -
  have "complete_fields tab (JObj (map_of [(ascii ''risk_level'', JInt 3)])) = Inl AttributeError"
    for tab
    by (simp add: complete_fields_def ensure_probability_def upper_of_def)
  then show "parse_response (sample_gemini out r) bad_text = Inl AttributeError"
    using parse_response_value(2) [OF sample_gemini_loads(3)] by blast
  have "complete_fields tab (JInt 3) = Inl TypeError" for tab
    by (simp add: complete_fields_def ensure_def contains_def)
  then show "parse_response (sample_gemini out r) number_text = Inl TypeError"
    using parse_response_value(3) [OF sample_gemini_loads(5)] by blast
qed

lemma sample_parse_array:
  "parse_response (sample_gemini out r) array_text = Inr (JArr (map JStr six_keys))"
  using parse_response_value(1) [OF sample_gemini_loads(4)]
    complete_fields_named [OF sample_values(1)]
  by blast

lemma sample_error_lines:
  "utf8_stdout (error_line (sample_gemini out r) AttributeError) = None"
  "utf8_stdout (error_line (sample_gemini out r) TypeError) = None"
  "utf8_stdout (error_line (sample_gemini out r)
     (OtherError (ascii ''503 Service Unavailable''))) = None"
  by (simp_all add: error_line_def sample_gemini_simps sample_exc_str_def utf8_stdout_def
      ascii_eval)

theorem classify_risk_fields_witness:
  "generate_content
     (sample_gemini utf8_stdout (Inl (OtherError (ascii ''503 Service Unavailable''))))
     (full_prompt
       (sample_gemini utf8_stdout (Inl (OtherError (ascii ''503 Service Unavailable'')))) [])
     = Inl (OtherError (ascii ''503 Service Unavailable'')) \<and>
   classify_risk
     (sample_gemini utf8_stdout (Inl (OtherError (ascii ''503 Service Unavailable'')))) []
     = Inr (api_error
         (sample_gemini utf8_stdout (Inl (OtherError (ascii ''503 Service Unavailable''))))
         (OtherError (ascii ''503 Service Unavailable''))) \<and>
   json_loads (sample_gemini utf8_stdout (Inr prose_text)) (clean prose_text)
     = Inl JSONDecodeError \<and>
   (\<exists>r. classify_risk (sample_gemini utf8_stdout (Inr prose_text)) [] = Inr r \<and>
      field r ''reason'' \<noteq> None \<and> field r ''recovery_probability'' = None) \<and>
   completes (map_of [(ascii ''recovery_probability'', JStr (ascii ''HIGH''))]) \<and>
   (\<exists>m'. classify_risk (sample_gemini utf8_stdout (Inr fenced_text)) [] = Inr (JObj m') \<and>
      m' (ascii ''recovery_probability'') = Some (JStr (ascii ''HIGH'')) \<and>
      m' (ascii ''risk_level'') = Some (JStr (ascii ''Unknown'')) \<and>
      m' (ascii ''confidence'') = Some (JFloat (8 / 10)) \<and>
      m' (ascii ''recovery_percentage'') = Some (JInt 70)) \<and>
   \<not> completes (map_of [(ascii ''risk_level'', JInt 3)]) \<and>
   classify_risk (sample_gemini utf8_stdout (Inr bad_text)) []
     = Inr (api_error (sample_gemini utf8_stdout (Inr bad_text)) AttributeError) \<and>
   \<not> is_obj (JInt 3) \<and> \<not> names_all (JInt 3) \<and>
   classify_risk (sample_gemini utf8_stdout (Inr number_text)) []
     = Inr (api_error (sample_gemini utf8_stdout (Inr number_text)) TypeError)"
proof -
  let ?e = "OtherError (ascii ''503 Service Unavailable'')"
  have t1: "classify_risk (sample_gemini utf8_stdout (Inl ?e)) []
      = Inr (api_error (sample_gemini utf8_stdout (Inl ?e)) ?e)"
    using classify_risk_fields [where g = "sample_gemini utf8_stdout (Inl ?e)" and ctx = "[]"
        and e = ?e, THEN conjunct2, THEN conjunct2, THEN conjunct1]
    by (simp add: sample_gemini_simps sample_error_lines)
  have t2: "\<exists>r. classify_risk (sample_gemini utf8_stdout (Inr prose_text)) [] = Inr r \<and>
      field r ''reason'' \<noteq> None \<and> field r ''recovery_probability'' = None"
    using classify_risk_fields [where g = "sample_gemini utf8_stdout (Inr prose_text)"
        and ctx = "[]" and resp = prose_text, THEN conjunct2, THEN conjunct1]
    by (auto simp: sample_gemini_simps(1) sample_gemini_loads simp del: not_None_eq)
  have t3: "\<exists>m'. classify_risk (sample_gemini utf8_stdout (Inr fenced_text)) [] = Inr (JObj m') \<and>
        m' (ascii ''recovery_probability'') = Some (JStr (ascii ''HIGH'')) \<and>
        m' (ascii ''risk_level'') = Some (JStr (ascii ''Unknown'')) \<and>
        m' (ascii ''confidence'') = Some (JFloat (8 / 10)) \<and>
        m' (ascii ''recovery_percentage'') = Some (JInt 70)"
    using classify_risk_fields [where g = "sample_gemini utf8_stdout (Inr fenced_text)"
        and ctx = "[]" and resp = fenced_text
        and m = "map_of [(ascii ''recovery_probability'', JStr (ascii ''HIGH''))]",
        THEN conjunct1]
      sample_completes(1)
    by (auto simp: sample_gemini_simps(1) sample_gemini_loads prob_map_get_HIGH)
  have t4: "classify_risk (sample_gemini utf8_stdout (Inr bad_text)) []
      = Inr (api_error (sample_gemini utf8_stdout (Inr bad_text)) AttributeError)"
    using classify_risk_fields [where g = "sample_gemini utf8_stdout (Inr bad_text)"
        and ctx = "[]" and resp = bad_text and e = AttributeError,
        THEN conjunct2, THEN conjunct2, THEN conjunct1]
    by (simp add: sample_gemini_simps sample_error_lines sample_parse_raises)
  have t5: "classify_risk (sample_gemini utf8_stdout (Inr number_text)) []
      = Inr (api_error (sample_gemini utf8_stdout (Inr number_text)) TypeError)"
    using classify_risk_fields [where g = "sample_gemini utf8_stdout (Inr number_text)"
        and ctx = "[]" and resp = number_text and e = TypeError,
        THEN conjunct2, THEN conjunct2, THEN conjunct1]
    by (simp add: sample_gemini_simps sample_error_lines sample_parse_raises)
  show ?thesis
    by (intro conjI sample_gemini_simps(1) sample_gemini_loads(1) sample_completes
        sample_values(2,3) t1 t2 t3 t4 t5)
qed

text \<open>
  Results that lack \<open>recovery_probability\<close> and \<open>recovery_percentage\<close>: the result
  for prose that does not decode, the sentinel for a failure of the service, the sentinel
  for a JSON object whose risk level is a number, and the sentinel for a JSON number.
  A JSON array that names the six keys is returned as it is, a list without any field.
\<close>

theorem classify_risk_fields_counterexample:
  "classify_risk (sample_gemini utf8_stdout (Inr prose_text)) []
     = Inr (dict_of
        [(ascii ''risk_level'', JStr (ascii ''HIGH'')),
         (ascii ''confidence'', JFloat (7 / 10)),
         (ascii ''reason'', JStr prose_text),
         (ascii ''recommended_action'', JStr (ascii ''Manual review recommended''))]) \<and>
   field (dict_of
        [(ascii ''risk_level'', JStr (ascii ''HIGH'')),
         (ascii ''confidence'', JFloat (7 / 10)),
         (ascii ''reason'', JStr prose_text),
         (ascii ''recommended_action'', JStr (ascii ''Manual review recommended''))])
     ''recovery_probability'' = None \<and>
   classify_risk
     (sample_gemini utf8_stdout (Inl (OtherError (ascii ''503 Service Unavailable'')))) []
     = Inr (api_error
         (sample_gemini utf8_stdout (Inl (OtherError (ascii ''503 Service Unavailable''))))
         (OtherError (ascii ''503 Service Unavailable''))) \<and>
   field (api_error
         (sample_gemini utf8_stdout (Inl (OtherError (ascii ''503 Service Unavailable''))))
         (OtherError (ascii ''503 Service Unavailable''))) ''recovery_percentage'' = None \<and>
   classify_risk (sample_gemini utf8_stdout (Inr bad_text)) []
     = Inr (api_error (sample_gemini utf8_stdout (Inr bad_text)) AttributeError) \<and>
   field (api_error (sample_gemini utf8_stdout (Inr bad_text)) AttributeError)
     ''recovery_probability'' = None \<and>
   classify_risk (sample_gemini utf8_stdout (Inr number_text)) []
     = Inr (api_error (sample_gemini utf8_stdout (Inr number_text)) TypeError) \<and>
   field (api_error (sample_gemini utf8_stdout (Inr number_text)) TypeError)
     ''recovery_probability'' = None \<and>
   classify_risk (sample_gemini utf8_stdout (Inr array_text)) []
     = Inr (JArr (map JStr six_keys)) \<and>
   field (JArr (map JStr six_keys)) ''risk_level'' = None"
proof -
  let ?e = "OtherError (ascii ''503 Service Unavailable'')"
  have l: "\<not> 200 < length prose_text"
    by (simp add: prose_text_def ascii_def)
  have x: "extract_risk_level tab prose_text = ascii ''HIGH''" for tab
    unfolding prose_text_def by (rule extract_prose)
  have "parse_response (sample_gemini utf8_stdout (Inr prose_text)) prose_text
     = Inr (dict_of
        [(ascii ''risk_level'', JStr (ascii ''HIGH'')),
         (ascii ''confidence'', JFloat (7 / 10)),
         (ascii ''reason'', JStr prose_text),
         (ascii ''recommended_action'', JStr (ascii ''Manual review recommended''))])"
    by (simp add: parse_response_def sample_gemini_loads(1) l x)
  then have a: "classify_risk (sample_gemini utf8_stdout (Inr prose_text)) []
     = Inr (dict_of
        [(ascii ''risk_level'', JStr (ascii ''HIGH'')),
         (ascii ''confidence'', JFloat (7 / 10)),
         (ascii ''reason'', JStr prose_text),
         (ascii ''recommended_action'', JStr (ascii ''Manual review recommended''))])"
    by (simp add: classify_risk_raised(3) sample_gemini_simps(1))
  have a': "field (dict_of
        [(ascii ''risk_level'', JStr (ascii ''HIGH'')),
         (ascii ''confidence'', JFloat (7 / 10)),
         (ascii ''reason'', JStr prose_text),
         (ascii ''recommended_action'', JStr (ascii ''Manual review recommended''))])
     ''recovery_probability'' = None"
    by (simp add: field_dict_of)
  have b: "classify_risk (sample_gemini utf8_stdout (Inl ?e)) []
     = Inr (api_error (sample_gemini utf8_stdout (Inl ?e)) ?e)"
    by (simp add: classify_risk_raised(1) handle_error_cases(1) sample_gemini_simps
        sample_error_lines)
  have c: "classify_risk (sample_gemini utf8_stdout (Inr bad_text)) []
     = Inr (api_error (sample_gemini utf8_stdout (Inr bad_text)) AttributeError)"
    by (simp add: classify_risk_raised(2) [OF _ sample_parse_raises(1)] handle_error_cases(1)
        sample_gemini_simps sample_error_lines)
  have d: "classify_risk (sample_gemini utf8_stdout (Inr number_text)) []
     = Inr (api_error (sample_gemini utf8_stdout (Inr number_text)) TypeError)"
    by (simp add: classify_risk_raised(2) [OF _ sample_parse_raises(2)] handle_error_cases(1)
        sample_gemini_simps sample_error_lines)
  have f: "classify_risk (sample_gemini utf8_stdout (Inr array_text)) []
     = Inr (JArr (map JStr six_keys))"
    by (simp add: classify_risk_raised(3) [OF _ sample_parse_array] sample_gemini_simps(1))
  have f': "field (JArr (map JStr six_keys)) ''risk_level'' = None"
    by (simp add: field_def)
  show ?thesis
    by (intro conjI a a' b c d f f' api_error_fields(5,6))
qed

section \<open>The pipeline on a case that is not in the case source\<close>

lemma get_case_by_id_absent:
  "get_case_by_id cs cid = None \<longleftrightarrow> (\<forall>c \<in> set cs. case_id c \<noteq> Some cid)"
  by (auto simp: get_case_by_id_def find_None_iff)

text \<open>
  When the first print of \<open>process_case\<close> completes, a case identifier that no case of
  the case source has gives the result with success false and the error message naming
  the case, with no case data, no context, no classification and no decision record, and
  the pipeline, its ledger included, stays as it was.
\<close>

lemma absent_case_result:
  assumes "get_case_by_id (fetcher_cases p) cid = None"
    and "pipeline_stdout p (line_fetch cid) = None"
  shows "process_case p now cid save_result =
        (Inr \<lparr>success = False, pr_case_id = cid, case_data = None, processed_context = None,
          classification = None, decision_record = None,
          error = Some (ascii ''Case '' @ cid @ ascii '' not found in database'')\<rparr>, p)"
  using assms by (simp add: process_case_def try_body_def print_then_def)

text \<open>
  When the first print raises, the handler stores the message of that exception, not the
  message naming the case; and when the print of the handler raises too,
  \<open>process_case\<close> raises.
\<close>

lemma first_print_raises:
  assumes "pipeline_stdout p (line_fetch cid) = Some e"
  shows "pipeline_stdout p (line_error p e) = None \<longrightarrow>
      process_case p now cid save_result =
        (Inr \<lparr>success = False, pr_case_id = cid, case_data = None, processed_context = None,
          classification = None, decision_record = None,
          error = Some (pipeline_exc_str p e)\<rparr>, p)"
    and "pipeline_stdout p (line_error p e) = Some raised \<longrightarrow>
      process_case p now cid save_result = (Inl raised, p)"
  using assms by (simp_all add: process_case_def try_body_def print_then_def)

lemma demo_pipeline_simps:
  "fetcher_cases (demo_pipeline out) = [test_case]"
  "pipeline_stdout (demo_pipeline out) = out"
  "pipeline_exc_str (demo_pipeline out) = sample_exc_str"
  "storage_results (demo_pipeline out) = []"
  by (simp_all add: demo_pipeline_def)

lemma demo_absent:
  "get_case_by_id (fetcher_cases (demo_pipeline out)) (ascii ''UNKNOWN_ID'') = None"
  "get_case_by_id (fetcher_cases (demo_pipeline out)) [56448] = None"
  by (simp_all add: get_case_by_id_def demo_pipeline_simps test_case_def ascii_eval)

lemma demo_lines:
  "ascii_stdout (line_fetch (ascii ''UNKNOWN_ID''))
     = Some (UnicodeEncodeError (ascii ''ascii codec: ordinal not in range(128)''))"
  "ascii_stdout (line_error (demo_pipeline ascii_stdout)
       (UnicodeEncodeError (ascii ''ascii codec: ordinal not in range(128)'')))
     = Some (UnicodeEncodeError (ascii ''ascii codec: ordinal not in range(128)''))"
  "utf8_stdout (line_fetch (ascii ''UNKNOWN_ID'')) = None"
  "utf8_stdout (line_fetch [56448])
     = Some (UnicodeEncodeError (ascii ''utf-8 codec: surrogates not allowed''))"
  "utf8_stdout (line_error (demo_pipeline utf8_stdout)
       (UnicodeEncodeError (ascii ''utf-8 codec: surrogates not allowed''))) = None"
  by (simp_all add: ascii_stdout_def utf8_stdout_def line_fetch_def line_error_def nl_def
      demo_pipeline_simps sample_exc_str_def ascii_eval)

text \<open>
  C9, on the code. The identifier UNKNOWN_ID is in no case of the case source. On a
  standard output that encodes in UTF-8 the call returns the result with success false
  and the error message naming the case.
  On a standard output that encodes in ASCII the first print raises inside the
  \<open>try\<close>, the print of the handler raises again, and \<open>process_case\<close> raises
  \<open>UnicodeEncodeError\<close> to its caller. For the identifier that is one lone surrogate
  (U+DC80), a string that \<open>json.loads\<close> can yield, on UTF-8, the call returns a
  result whose error is the message of the encoder, not a message about the missing case.
\<close>

theorem process_case_not_found_raises:
  "get_case_by_id (fetcher_cases (demo_pipeline utf8_stdout)) (ascii ''UNKNOWN_ID'') = None \<and>
   fst (process_case (demo_pipeline utf8_stdout) (ascii ''2024-01-01T00:00:00'')
         (ascii ''UNKNOWN_ID'') True)
     = Inr \<lparr>success = False, pr_case_id = ascii ''UNKNOWN_ID'', case_data = None,
           processed_context = None, classification = None, decision_record = None,
           error = Some (ascii ''Case UNKNOWN_ID not found in database'')\<rparr> \<and>
   get_case_by_id (fetcher_cases (demo_pipeline ascii_stdout)) (ascii ''UNKNOWN_ID'') = None \<and>
   fst (process_case (demo_pipeline ascii_stdout) (ascii ''2024-01-01T00:00:00'')
         (ascii ''UNKNOWN_ID'') True)
     = Inl (UnicodeEncodeError (ascii ''ascii codec: ordinal not in range(128)'')) \<and>
   get_case_by_id (fetcher_cases (demo_pipeline utf8_stdout)) [56448] = None \<and>
   fst (process_case (demo_pipeline utf8_stdout) (ascii ''2024-01-01T00:00:00'') [56448] True)
     = Inr \<lparr>success = False, pr_case_id = [56448], case_data = None,
           processed_context = None, classification = None, decision_record = None,
           error = Some (ascii ''utf-8 codec: surrogates not allowed'')\<rparr>"
proof -
  let ?now = "ascii ''2024-01-01T00:00:00''"
  have j: "ascii ''Case '' @ ascii ''UNKNOWN_ID'' @ ascii '' not found in database''
      = ascii ''Case UNKNOWN_ID not found in database''"
    by (simp add: ascii_eval)
  have a: "fst (process_case (demo_pipeline utf8_stdout) ?now (ascii ''UNKNOWN_ID'') True)
     = Inr \<lparr>success = False, pr_case_id = ascii ''UNKNOWN_ID'', case_data = None,
           processed_context = None, classification = None, decision_record = None,
           error = Some (ascii ''Case UNKNOWN_ID not found in database'')\<rparr>"
  proof -
    have l: "pipeline_stdout (demo_pipeline utf8_stdout) (line_fetch (ascii ''UNKNOWN_ID''))
        = None"
      by (simp add: demo_pipeline_simps(2) demo_lines(3))
    show ?thesis
      using absent_case_result [OF demo_absent(1) l, of ?now True] by (simp add: j)
  qed
  have b: "fst (process_case (demo_pipeline ascii_stdout) ?now (ascii ''UNKNOWN_ID'') True)
     = Inl (UnicodeEncodeError (ascii ''ascii codec: ordinal not in range(128)''))"
    using first_print_raises(2) [of "demo_pipeline ascii_stdout"
        "ascii ''UNKNOWN_ID''"
        "UnicodeEncodeError (ascii ''ascii codec: ordinal not in range(128)'')"
        "UnicodeEncodeError (ascii ''ascii codec: ordinal not in range(128)'')" ?now True]
      demo_lines(1,2)
    by (simp add: demo_pipeline_simps(2))
  have c: "fst (process_case (demo_pipeline utf8_stdout) ?now [56448] True)
     = Inr \<lparr>success = False, pr_case_id = [56448], case_data = None,
           processed_context = None, classification = None, decision_record = None,
           error = Some (ascii ''utf-8 codec: surrogates not allowed'')\<rparr>"
    using first_print_raises(1) [of "demo_pipeline utf8_stdout" "[56448]"
        "UnicodeEncodeError (ascii ''utf-8 codec: surrogates not allowed'')" ?now True]
      demo_lines(4,5)
    by (simp add: demo_pipeline_simps(2,3) sample_exc_str_def)
  show ?thesis
    by (intro conjI demo_absent a b c)
qed


end
